theory Spec2Isabelle
  imports Complex_Main "HOL-Library.Product_Lexorder" "HOL-Library.Log_Nat"
begin

section \<open>Personal expense tracker: data model\<close>

text \<open>
  The embedding follows \<^verbatim>\<open>app/models.py\<close>, \<^verbatim>\<open>app/schemas.py\<close>, \<^verbatim>\<open>app/crud.py\<close> and
  \<^verbatim>\<open>app/auth.py\<close>. The relational store behind the SQLAlchemy session is a record of
  four row lists. A query takes the store; an operation that writes takes the store and
  returns it, updated or as it was, next to its result. A raised exception is the left
  injection of a sum.
\<close>

subsection \<open>Calendar dates\<close>

text \<open>
  A \<^verbatim>\<open>datetime.date\<close> is the triple (year, month, day); Python compares dates
  lexicographically, which is the order of \<open>Product_Lexorder\<close>.
\<close>

type_synonym date = "int \<times> int \<times> int"

definition date_year :: "date \<Rightarrow> int" where
  "date_year d = fst d"

definition date_month :: "date \<Rightarrow> int" where
  "date_month d = fst (snd d)"

definition date_day :: "date \<Rightarrow> int" where
  "date_day d = snd (snd d)"

definition isleap :: "int \<Rightarrow> bool" where
  "isleap y = (y mod 4 = 0 \<and> (y mod 100 \<noteq> 0 \<or> y mod 400 = 0))"

definition days_in_month :: "int \<Rightarrow> int \<Rightarrow> int" where
  "days_in_month y m =
     (if m = 2 then (if isleap y then 29 else 28)
      else if m = 4 \<or> m = 6 \<or> m = 9 \<or> m = 11 then 30 else 31)"

definition valid_date :: "date \<Rightarrow> bool" where
  "valid_date d =
     (1 \<le> date_year d \<and> date_year d \<le> 9999 \<and> 1 \<le> date_month d \<and> date_month d \<le> 12 \<and>
      1 \<le> date_day d \<and> date_day d \<le> days_in_month (date_year d) (date_month d))"

subsection \<open>Errors\<close>

text \<open>
  \<open>HTTPException\<close> carries the status code and the detail string of
  \<^verbatim>\<open>fastapi.HTTPException\<close>; \<open>ValueError\<close> is what \<^verbatim>\<open>date(...)\<close> and
  \<^verbatim>\<open>calendar.monthrange\<close> raise on a year or month out of range; \<open>IntegrityError\<close>
  is SQLAlchemy's exception where no handler catches it.
\<close>

datatype error = HTTPException (status_code: nat) (detail: string) | ValueError | IntegrityError

text \<open>\<^verbatim>\<open>date(year, month, day)\<close>: the constructor checks its arguments.\<close>

definition py_date :: "int \<Rightarrow> int \<Rightarrow> int \<Rightarrow> error + date" where
  "py_date y m d = (if valid_date (y, m, d) then Inr (y, m, d) else Inl ValueError)"

text \<open>\<^verbatim>\<open>calendar.monthrange(year, month)\<close>, second component (the number of days).\<close>

definition monthrange :: "int \<Rightarrow> int \<Rightarrow> error + int" where
  "monthrange y m = (if 1 \<le> m \<and> m \<le> 12 then Inr (days_in_month y m) else Inl ValueError)"

text \<open>\<^verbatim>\<open>strftime('%B')\<close> in the C locale, for a month number between 1 and 12.\<close>

definition month_name :: "int \<Rightarrow> string" where
  "month_name m =
     [''January'', ''February'', ''March'', ''April'', ''May'', ''June'', ''July'',
      ''August'', ''September'', ''October'', ''November'', ''December''] ! nat (m - 1)"

subsection \<open>Float arithmetic\<close>

text \<open>
  An amount is a Python \<^verbatim>\<open>float\<close>, a finite IEEE 754 double. It is represented by its
  exact value, a rational, so the comparisons \<^verbatim>\<open><\<close>, \<^verbatim>\<open>>\<close> and \<^verbatim>\<open>==\<close> of finite
  floats are the comparisons of these values. Infinities and NaN are not represented.

  What the arithmetic returns is not written in the repository: the built-in
  \<^verbatim>\<open>sum\<close> adds from the left up to Python 3.11 and with compensation from 3.12 on,
  \<^verbatim>\<open>SUM\<close> is the database engine's, and \<^verbatim>\<open>-\<close>, \<^verbatim>\<open>*\<close>, \<^verbatim>\<open>/\<close> and \<^verbatim>\<open>round\<close> round
  their result to a double. The operations are therefore an argument of every function
  that computes with amounts, and the theorems hold for all of them.
\<close>

record float_ops =
  float_sum :: "rat list \<Rightarrow> rat"
  db_sum :: "rat list \<Rightarrow> rat"
  float_sub :: "rat \<Rightarrow> rat \<Rightarrow> rat"
  float_mul :: "rat \<Rightarrow> rat \<Rightarrow> rat"
  float_div :: "rat \<Rightarrow> rat \<Rightarrow> rat"
  float_round :: "rat \<Rightarrow> nat \<Rightarrow> rat"

text \<open>
  \<^verbatim>\<open>sum(...)\<close> of a generator of floats: the start value, the integer 0, when the
  generator is empty.
\<close>

definition py_sum :: "float_ops \<Rightarrow> rat list \<Rightarrow> rat" where
  "py_sum ops xs = (if xs = [] then 0 else float_sum ops xs)"

text \<open>
  SQL \<^verbatim>\<open>SUM\<close> over the selected rows: NULL (Python \<^verbatim>\<open>None\<close>) when no row is selected.
\<close>

definition sql_sum :: "float_ops \<Rightarrow> rat list \<Rightarrow> rat option" where
  "sql_sum ops xs = (if xs = [] then None else Some (db_sum ops xs))"

text \<open>\<^verbatim>\<open>x or 0.0\<close> for an optional number: \<^verbatim>\<open>None\<close> and zero are falsy.\<close>

definition or_zero :: "rat option \<Rightarrow> rat" where
  "or_zero x = (case x of None \<Rightarrow> 0 | Some v \<Rightarrow> if v = 0 then 0 else v)"

text \<open>
  \<^verbatim>\<open>a - b\<close> where either side may be the integer 0 of an empty sum: zero minus zero is
  zero for integers and for floats.
\<close>

definition py_sub :: "float_ops \<Rightarrow> rat \<Rightarrow> rat \<Rightarrow> rat" where
  "py_sub ops a b = (if a = 0 \<and> b = 0 then 0 else float_sub ops a b)"

text \<open>
  \<^verbatim>\<open>round(x, ndigits)\<close>: zero rounds to zero, whether it is the integer or the float.
\<close>

definition py_round :: "float_ops \<Rightarrow> rat \<Rightarrow> nat \<Rightarrow> rat" where
  "py_round ops x ndigits = (if x = 0 then 0 else float_round ops x ndigits)"

subsection \<open>The arithmetic of binary64\<close>

text \<open>
  One instance of the operations, used to evaluate the functions on concrete stores:
  IEEE 754 binary64 with rounding to nearest, ties to even, on results inside the range
  of finite doubles, sums added from the left, and \<^verbatim>\<open>round\<close> as CPython computes it
  (the exact value rounded half-even to the decimal places, then to the nearest
  double).
\<close>

definition pow2 :: "int \<Rightarrow> rat" where
  "pow2 k = (if 0 \<le> k then 2 ^ nat k else 1 / 2 ^ nat (- k))"

text \<open>The integer \<open>k\<close> with \<open>2 ^ k \<le> x < 2 ^ (k + 1)\<close>, for a positive \<open>x\<close>.\<close>

definition ilog2 :: "rat \<Rightarrow> int" where
  "ilog2 x =
     (let (p, q) = quotient_of x; k = bitlen p - bitlen q
      in if pow2 k \<le> x then k else k - 1)"

text \<open>Rounding to the nearest integer, ties to the even neighbour.\<close>

definition round_half_even :: "rat \<Rightarrow> int" where
  "round_half_even x =
     (let f = \<lfloor>x\<rfloor>; r = x - of_int f
      in if r < 1 / 2 then f
         else if 1 / 2 < r then f + 1
         else if even f then f else f + 1)"

text \<open>
  The double nearest to a rational: 53 significant bits, and multiples of
  \<open>2 ^ - 1074\<close> below the normal range.
\<close>

definition fl :: "rat \<Rightarrow> rat" where
  "fl x =
     (if x = 0 then 0
      else let a = \<bar>x\<bar>; q = pow2 (max (ilog2 a - 52) (- 1074))
           in sgn x * of_int (round_half_even (a / q)) * q)"

definition binary64 :: float_ops where
  "binary64 =
     \<lparr> float_sum = foldl (\<lambda>a x. fl (a + x)) 0,
       db_sum = foldl (\<lambda>a x. fl (a + x)) 0,
       float_sub = (\<lambda>a b. fl (a - b)),
       float_mul = (\<lambda>a b. fl (a * b)),
       float_div = (\<lambda>a b. fl (a / b)),
       float_round = (\<lambda>x n. fl (of_int (round_half_even (x * 10 ^ n)) / 10 ^ n)) \<rparr>"

subsection \<open>Tables (\<^verbatim>\<open>app/models.py\<close>)\<close>

text \<open>
  \<open>created_at\<close> is filled by the store (\<^verbatim>\<open>server_default=func.now()\<close>); the clock
  reading is an argument of every operation that inserts a row.
\<close>

record category =
  category_id :: int
  name :: string
  type :: string
  created_at :: int

record transaction =
  transaction_id :: int
  amount :: rat
  type :: string
  description :: "string option"
  transaction_date :: date
  category_id :: int
  created_at :: int

record budget =
  budget_id :: int
  category_id :: int
  amount :: rat
  period :: string
  created_at :: int

record user =
  user_id :: int
  username :: string
  email :: string
  hashed_password :: string
  full_name :: "string option"
  is_active :: bool
  created_at :: int

record db =
  categories :: "category list"
  transactions :: "transaction list"
  budgets :: "budget list"
  users :: "user list"

text \<open>
  An autoincrement primary key: a key that no row of the table has, here one more than
  the largest.
\<close>

definition next_id :: "int list \<Rightarrow> int" where
  "next_id ids = fold max ids 0 + 1"

section \<open>Analytics (\<^verbatim>\<open>app/crud.py\<close>)\<close>

record SummaryResponse =
  total_income :: rat
  total_expenses :: rat
  balance :: rat
  transaction_count :: nat

text \<open>
  \<^verbatim>\<open>if start_date:\<close> and \<^verbatim>\<open>if end_date:\<close> test a \<^verbatim>\<open>date\<close> object, which is always
  truthy, so a bound is applied exactly when it is not \<^verbatim>\<open>None\<close>.
\<close>

definition filter_start :: "date option \<Rightarrow> transaction list \<Rightarrow> transaction list" where
  "filter_start start_date query =
     (case start_date of
        None \<Rightarrow> query
      | Some s \<Rightarrow> filter (\<lambda>t. s \<le> transaction_date t) query)"

definition filter_end :: "date option \<Rightarrow> transaction list \<Rightarrow> transaction list" where
  "filter_end end_date query =
     (case end_date of
        None \<Rightarrow> query
      | Some e \<Rightarrow> filter (\<lambda>t. transaction_date t \<le> e) query)"

definition get_summary ::
    "float_ops \<Rightarrow> db \<Rightarrow> date option \<Rightarrow> date option \<Rightarrow> SummaryResponse" where
  "get_summary ops d start_date end_date =
     (let query = filter_end end_date (filter_start start_date (transactions d));
          total_income =
            py_sum ops
              (map transaction.amount (filter (\<lambda>t. transaction.type t = ''INCOME'') query));
          total_expenses =
            py_sum ops
              (map transaction.amount (filter (\<lambda>t. transaction.type t = ''EXPENSE'') query))
      in \<lparr> total_income = py_round ops total_income 2,
           total_expenses = py_round ops total_expenses 2,
           SummaryResponse.balance = py_round ops (py_sub ops total_income total_expenses) 2,
           transaction_count = length query \<rparr>)"

text \<open>
  The specification's reading of an optional inclusive date range: a missing bound does
  not restrict.
\<close>

definition in_range :: "date option \<Rightarrow> date option \<Rightarrow> date \<Rightarrow> bool" where
  "in_range start_date end_date x =
     ((case start_date of None \<Rightarrow> True | Some s \<Rightarrow> s \<le> x) \<and>
      (case end_date of None \<Rightarrow> True | Some e \<Rightarrow> x \<le> e))"

text \<open>
  The sum of the amounts of the transactions of one type inside a range, in the order
  of the rows.
\<close>

definition range_total ::
    "float_ops \<Rightarrow> db \<Rightarrow> date option \<Rightarrow> date option \<Rightarrow> string \<Rightarrow> rat" where
  "range_total ops d start_date end_date ty =
     py_sum ops (map transaction.amount
       (filter (\<lambda>t. in_range start_date end_date (transaction_date t) \<and> transaction.type t = ty)
          (transactions d)))"

subsection \<open>Budget status\<close>

text \<open>Sequencing of two steps of which the first may raise.\<close>

definition and_then :: "error + 'a \<Rightarrow> ('a \<Rightarrow> error + 'b) \<Rightarrow> error + 'b" where
  "and_then r f = (case r of Inl e \<Rightarrow> Inl e | Inr v \<Rightarrow> f v)"

text \<open>\<^verbatim>\<open>get_category\<close>: the first row with the given key, if any.\<close>

definition get_category :: "db \<Rightarrow> int \<Rightarrow> category option" where
  "get_category d cid = find (\<lambda>c. category.category_id c = cid) (categories d)"

record BudgetStatus =
  budget_id :: int
  category_id :: int
  category_name :: string
  budget_amount :: rat
  spent_amount :: rat
  remaining :: rat
  percentage_used :: rat
  is_over_budget :: bool

text \<open>
  Lines 247 to 252 of \<^verbatim>\<open>crud.py\<close>: with both bounds given the range is theirs. When
  one is \<^verbatim>\<open>None\<close>, \<^verbatim>\<open>today\<close> is read and
  \<^verbatim>\<open>start_date or date(today.year, today.month, 1)\<close> keeps a bound that was given;
  \<^verbatim>\<open>monthrange\<close> is called on that path whichever bound is missing.
\<close>

definition default_range :: "date \<Rightarrow> date option \<Rightarrow> date option \<Rightarrow> error + date \<times> date" where
  "default_range today start_date end_date =
     (case (start_date, end_date) of
        (Some s, Some e) \<Rightarrow> Inr (s, e)
      | _ \<Rightarrow>
        and_then
          (case start_date of
             Some s \<Rightarrow> Inr s
           | None \<Rightarrow> py_date (date_year today) (date_month today) 1)
          (\<lambda>s. and_then (monthrange (date_year today) (date_month today))
            (\<lambda>last_day. and_then
              (case end_date of
                 Some e \<Rightarrow> Inr e
               | None \<Rightarrow> py_date (date_year today) (date_month today) last_day)
              (\<lambda>e. Inr (s, e)))))"

text \<open>The body of the loop over the budgets, for the resolved range.\<close>

definition budget_status :: "float_ops \<Rightarrow> db \<Rightarrow> date \<Rightarrow> date \<Rightarrow> budget \<Rightarrow> BudgetStatus" where
  "budget_status ops d start_date end_date b =
     (let category = get_category d (budget.category_id b);
          spent = or_zero (sql_sum ops (map transaction.amount
                    (filter (\<lambda>t. transaction.category_id t = budget.category_id b \<and>
                                 start_date \<le> transaction_date t \<and>
                                 transaction_date t \<le> end_date)
                       (transactions d))));
          remaining = float_sub ops (budget.amount b) spent;
          percentage = (if 0 < budget.amount b
                        then float_mul ops (float_div ops spent (budget.amount b)) 100
                        else 0)
      in \<lparr> BudgetStatus.budget_id = budget.budget_id b,
           BudgetStatus.category_id = budget.category_id b,
           category_name = (case category of Some c \<Rightarrow> category.name c | None \<Rightarrow> ''Unknown''),
           budget_amount = budget.amount b,
           spent_amount = py_round ops spent 2,
           remaining = py_round ops remaining 2,
           percentage_used = py_round ops percentage 1,
           is_over_budget = (budget.amount b < spent) \<rparr>)"

definition get_budgets_with_status ::
    "float_ops \<Rightarrow> db \<Rightarrow> date \<Rightarrow> date option \<Rightarrow> date option \<Rightarrow>
     error + BudgetStatus list" where
  "get_budgets_with_status ops d today start_date end_date =
     and_then (default_range today start_date end_date)
       (\<lambda>(s, e). Inr (map (budget_status ops d s e) (budgets d)))"

text \<open>
  What the specification calls spent: the database's sum of the amounts of the
  transactions of a category dated inside an inclusive range, 0 when there is none.
\<close>

definition spent_in :: "float_ops \<Rightarrow> db \<Rightarrow> int \<Rightarrow> date \<Rightarrow> date \<Rightarrow> rat" where
  "spent_in ops d cid s e =
     or_zero (sql_sum ops (map transaction.amount
       (filter (\<lambda>t. transaction.category_id t = cid \<and> s \<le> transaction_date t \<and>
                    transaction_date t \<le> e)
          (transactions d))))"

text \<open>The first and the last day of the calendar month of a date.\<close>

definition month_first :: "date \<Rightarrow> date" where
  "month_first today = (date_year today, date_month today, 1)"

definition month_last :: "date \<Rightarrow> date" where
  "month_last today =
     (date_year today, date_month today, days_in_month (date_year today) (date_month today))"

text \<open>A transaction row and a budget row with the columns that matter below.\<close>

definition mk_transaction :: "int \<Rightarrow> rat \<Rightarrow> string \<Rightarrow> date \<Rightarrow> int \<Rightarrow> transaction" where
  "mk_transaction i a ty dt cid =
     \<lparr> transaction_id = i, transaction.amount = a, transaction.type = ty,
       description = None, transaction_date = dt, transaction.category_id = cid,
       transaction.created_at = 0 \<rparr>"

definition mk_budget :: "int \<Rightarrow> int \<Rightarrow> rat \<Rightarrow> budget" where
  "mk_budget i cid a =
     \<lparr> budget.budget_id = i, budget.category_id = cid, budget.amount = a,
       period = ''MONTHLY'', budget.created_at = 0 \<rparr>"

definition mk_category :: "int \<Rightarrow> string \<Rightarrow> string \<Rightarrow> category" where
  "mk_category i n ty =
     \<lparr> category.category_id = i, category.name = n, category.type = ty,
       category.created_at = 0 \<rparr>"

text \<open>
  March 2024: a budget of 10000 on category 6 with 3000 + 1500 spent, a budget of 10000
  on category 7 with 12000 spent, and a February expense that is out of range.
\<close>

definition budget_db :: db where
  "budget_db =
     \<lparr> categories = [mk_category 6 ''Food & Dining'' ''EXPENSE'', mk_category 7 ''Rent'' ''EXPENSE''],
       transactions =
         [mk_transaction 1 3000 ''EXPENSE'' (2024, 3, 1) 6,
          mk_transaction 2 1500 ''EXPENSE'' (2024, 3, 31) 6,
          mk_transaction 3 12000 ''EXPENSE'' (2024, 3, 10) 7,
          mk_transaction 4 700 ''EXPENSE'' (2024, 2, 29) 6],
       budgets = [mk_budget 1 6 10000, mk_budget 2 7 10000],
       users = [] \<rparr>"

text \<open>A budget of 3 on category 6 with a single expense of 1.\<close>

definition thirds_db :: db where
  "thirds_db =
     \<lparr> categories = [mk_category 6 ''Food & Dining'' ''EXPENSE''],
       transactions = [mk_transaction 1 1 ''EXPENSE'' (2024, 3, 10) 6],
       budgets = [mk_budget 1 6 3],
       users = [] \<rparr>"

text \<open>
  A store with one income of 100.006 and one expense of 50.012 on the same day, each the
  double nearest to the decimal.
\<close>

definition summary_db :: db where
  "summary_db =
     \<lparr> categories = [],
       transactions =
         [mk_transaction 1 (fl (100006 / 1000)) ''INCOME'' (2024, 3, 5) 1,
          mk_transaction 2 (fl (50012 / 1000)) ''EXPENSE'' (2024, 3, 5) 6],
       budgets = [], users = [] \<rparr>"

text \<open>
  The inclusive range of the budget status as the specification gives it: a bound that
  was supplied, else the matching boundary of the current calendar month.
\<close>

definition budget_range :: "date \<Rightarrow> date option \<Rightarrow> date option \<Rightarrow> date \<times> date" where
  "budget_range today start_date end_date =
     ((case start_date of Some s \<Rightarrow> s | None \<Rightarrow> month_first today),
      (case end_date of Some e \<Rightarrow> e | None \<Rightarrow> month_last today))"

subsection \<open>Monthly trend\<close>

record MonthlyTrend =
  month :: string
  year :: int
  income :: rat
  expenses :: rat
  balance :: rat

text \<open>
  The loop \<^verbatim>\<open>while month <= 0: month += 12; year -= 1\<close>. The arguments are called
  \<open>m\<close> and \<open>y\<close> because \<open>month\<close> and \<open>year\<close> are fields of the response.
\<close>

function wrap_month :: "int \<Rightarrow> int \<Rightarrow> int \<times> int" where
  "wrap_month m y = (if m \<le> 0 then wrap_month (m + 12) (y - 1) else (m, y))"
  by pat_completeness auto
termination
  by (relation "measure (\<lambda>(m, y). nat (1 - m))") auto

text \<open>
  One pass of the loop body for the offset \<open>i\<close>: the month \<open>i\<close> months before the
  current one, its first and last day, the transactions dated between them and their
  rounded sums.
\<close>

definition trend_entry :: "float_ops \<Rightarrow> db \<Rightarrow> date \<Rightarrow> int \<Rightarrow> error + MonthlyTrend" where
  "trend_entry ops d today i =
     (let (month, year) = wrap_month (date_month today - i) (date_year today)
      in and_then (py_date year month 1)
           (\<lambda>month_start. and_then (monthrange year month)
             (\<lambda>last_day. and_then (py_date year month last_day)
               (\<lambda>month_end.
                  let txs = filter (\<lambda>t. month_start \<le> transaction_date t \<and>
                                          transaction_date t \<le> month_end) (transactions d);
                      income = py_sum ops (map transaction.amount
                                 (filter (\<lambda>t. transaction.type t = ''INCOME'') txs));
                      expenses = py_sum ops (map transaction.amount
                                   (filter (\<lambda>t. transaction.type t = ''EXPENSE'') txs))
                  in Inr \<lparr> month = month_name (date_month month_start),
                           year = year,
                           income = py_round ops income 2,
                           expenses = py_round ops expenses 2,
                           MonthlyTrend.balance =
                             py_round ops (py_sub ops income expenses) 2 \<rparr>))))"

text \<open>
  The \<^verbatim>\<open>for\<close> loop appends one entry per offset and stops at the first exception.
\<close>

fun trend_loop ::
    "float_ops \<Rightarrow> db \<Rightarrow> date \<Rightarrow> int list \<Rightarrow> MonthlyTrend list \<Rightarrow>
     error + MonthlyTrend list" where
  "trend_loop ops d today [] results = Inr results"
| "trend_loop ops d today (i # rest) results =
     and_then (trend_entry ops d today i)
       (\<lambda>r. trend_loop ops d today rest (results @ [r]))"

text \<open>
  \<^verbatim>\<open>range(months - 1, -1, -1)\<close> runs from \<open>months - 1\<close> down to 0 and is empty when
  \<open>months < 1\<close>.
\<close>

definition get_monthly_trend ::
    "float_ops \<Rightarrow> db \<Rightarrow> date \<Rightarrow> int \<Rightarrow> error + MonthlyTrend list" where
  "get_monthly_trend ops d today months = trend_loop ops d today (rev [0..months - 1]) []"

text \<open>
  Calendar months numbered consecutively: month \<open>m\<close> of year \<open>y\<close> has index
  \<open>12 * y + (m - 1)\<close>, so the month before January is December of the year before.
\<close>

definition month_index :: "int \<Rightarrow> int \<Rightarrow> int" where
  "month_index y m = 12 * y + (m - 1)"

text \<open>
  The sum of the amounts of one type dated in month \<open>m\<close> of year \<open>y\<close>, in the order of
  the rows.
\<close>

definition month_total :: "float_ops \<Rightarrow> db \<Rightarrow> int \<Rightarrow> int \<Rightarrow> string \<Rightarrow> rat" where
  "month_total ops d y m ty =
     py_sum ops (map transaction.amount
       (filter (\<lambda>t. date_year (transaction_date t) = y \<and> date_month (transaction_date t) = m \<and>
                    transaction.type t = ty)
          (transactions d)))"

text \<open>
  Transactions in November and December 2023 and in February 2024, none in January 2024.
\<close>

definition trend_db :: db where
  "trend_db =
     \<lparr> categories = [mk_category 1 ''Salary'' ''INCOME'', mk_category 6 ''Food & Dining'' ''EXPENSE''],
       transactions =
         [mk_transaction 1 5000 ''INCOME'' (2023, 12, 31) 1,
          mk_transaction 2 1200 ''EXPENSE'' (2023, 12, 1) 6,
          mk_transaction 3 800 ''EXPENSE'' (2024, 2, 29) 6,
          mk_transaction 4 300 ''EXPENSE'' (2023, 11, 30) 6],
       budgets = [], users = [] \<rparr>"

text \<open>
  The entry the specification asks for the calendar month of index \<open>idx\<close>: its name
  and year, and the rounded sums of that month.
\<close>

definition trend_spec :: "float_ops \<Rightarrow> db \<Rightarrow> int \<Rightarrow> MonthlyTrend" where
  "trend_spec ops d idx =
     (let y = idx div 12; m = idx mod 12 + 1
      in \<lparr> month = month_name m, year = y,
           income = py_round ops (month_total ops d y m ''INCOME'') 2,
           expenses = py_round ops (month_total ops d y m ''EXPENSE'') 2,
           MonthlyTrend.balance =
             py_round ops
               (py_sub ops (month_total ops d y m ''INCOME'') (month_total ops d y m ''EXPENSE''))
               2 \<rparr>)"

section \<open>Domain operations (\<^verbatim>\<open>app/crud.py\<close>)\<close>

subsection \<open>Detail strings\<close>

text \<open>\<^verbatim>\<open>str\<close> of a Python integer, as the f-strings of the detail messages format it.\<close>

fun str_nat :: "nat \<Rightarrow> string" where
  "str_nat n =
     (if n < 10 then [char_of (48 + n)]
      else str_nat (n div 10) @ [char_of (48 + n mod 10)])"

declare str_nat.simps [simp del]

definition str_int :: "int \<Rightarrow> string" where
  "str_int i = (if i < 0 then ''-'' @ str_nat (nat (- i)) else str_nat (nat i))"

text \<open>\<^verbatim>\<open>str\<close> of an optional integer: \<^verbatim>\<open>None\<close> prints as \<^verbatim>\<open>None\<close>.\<close>

definition str_opt_int :: "int option \<Rightarrow> string" where
  "str_opt_int x = (case x of None \<Rightarrow> ''None'' | Some i \<Rightarrow> str_int i)"

definition category_exists_detail :: "string \<Rightarrow> string" where
  "category_exists_detail n = ''Category '' @ [CHR 0x27] @ n @ [CHR 0x27] @ '' already exists''"

definition category_not_found_detail :: "int option \<Rightarrow> string" where
  "category_not_found_detail cid = ''Category with ID '' @ str_opt_int cid @ '' not found''"

definition transaction_not_found_detail :: "int \<Rightarrow> string" where
  "transaction_not_found_detail tid = ''Transaction with ID '' @ str_int tid @ '' not found''"

text \<open>
  The handler of \<^verbatim>\<open>IntegrityError\<close> rolls back and raises status 400 with the driver's
  message after \<^verbatim>\<open>Database error: \<close>; the message itself belongs to the database
  driver and is left out.
\<close>

definition integrity_error :: error where
  "integrity_error = HTTPException 400 ''Database error: ''"

subsection \<open>Request schemas (\<^verbatim>\<open>app/schemas.py\<close>)\<close>

record CategoryCreate =
  name :: string
  type :: string

record TransactionCreate =
  amount :: rat
  type :: string
  description :: "string option"
  transaction_date :: date
  category_id :: int

text \<open>
  \<^verbatim>\<open>TransactionUpdate\<close>: every field is optional, and
  \<^verbatim>\<open>model_dump(exclude_unset=True)\<close> keeps the fields the request supplied, also the
  ones supplied as \<^verbatim>\<open>null\<close>. The outer option says whether the field was supplied, the
  inner one is the supplied value.
\<close>

record TransactionUpdate =
  amount :: "rat option option"
  type :: "string option option"
  description :: "string option option"
  transaction_date :: "date option option"
  category_id :: "int option option"

record BudgetCreate =
  category_id :: int
  amount :: rat
  period :: string

text \<open>
  The check constraints of the tables, which the store enforces at commit:
  \<^verbatim>\<open>type IN ('INCOME', 'EXPENSE')\<close> and \<^verbatim>\<open>amount > 0\<close>.
\<close>

definition check_type :: "string \<Rightarrow> bool" where
  "check_type ty = (ty = ''INCOME'' \<or> ty = ''EXPENSE'')"

subsection \<open>Categories\<close>

definition create_category :: "db \<Rightarrow> int \<Rightarrow> CategoryCreate \<Rightarrow> db \<times> (error + category)" where
  "create_category d now c =
     (case find (\<lambda>x. category.name x = CategoryCreate.name c) (categories d) of
        Some existing \<Rightarrow>
          (d, Inl (HTTPException 400 (category_exists_detail (CategoryCreate.name c))))
      | None \<Rightarrow>
          (let db_category =
                 \<lparr> category.category_id = next_id (map category.category_id (categories d)),
                   category.name = CategoryCreate.name c,
                   category.type = CategoryCreate.type c,
                   category.created_at = now \<rparr>
           in if check_type (category.type db_category)
              then (d\<lparr>categories := categories d @ [db_category]\<rparr>, Inr db_category)
              else (d, Inl integrity_error)))"

subsection \<open>Transactions\<close>

definition create_transaction ::
    "db \<Rightarrow> int \<Rightarrow> TransactionCreate \<Rightarrow> db \<times> (error + transaction)" where
  "create_transaction d now t =
     (case get_category d (TransactionCreate.category_id t) of
        None \<Rightarrow>
          (d, Inl (HTTPException 400
                     (category_not_found_detail (Some (TransactionCreate.category_id t)))))
      | Some category \<Rightarrow>
          (let db_transaction =
                 \<lparr> transaction_id = next_id (map transaction_id (transactions d)),
                   transaction.amount = TransactionCreate.amount t,
                   transaction.type = TransactionCreate.type t,
                   transaction.description = TransactionCreate.description t,
                   transaction.transaction_date = TransactionCreate.transaction_date t,
                   transaction.category_id = TransactionCreate.category_id t,
                   transaction.created_at = now \<rparr>
           in if 0 < transaction.amount db_transaction \<and>
                 check_type (transaction.type db_transaction)
              then (d\<lparr>transactions := transactions d @ [db_transaction]\<rparr>, Inr db_transaction)
              else (d, Inl integrity_error)))"

text \<open>
  \<^verbatim>\<open>if category_id:\<close> and \<^verbatim>\<open>if transaction_type:\<close> test an integer and a string: 0 and
  the empty string are falsy, like \<^verbatim>\<open>None\<close>. The argument \<^verbatim>\<open>category_id\<close> is
  called \<open>cat_id\<close>, the name being that of a column.
\<close>

definition filter_category :: "int option \<Rightarrow> transaction list \<Rightarrow> transaction list" where
  "filter_category cat_id query =
     (case cat_id of
        None \<Rightarrow> query
      | Some c \<Rightarrow> if c \<noteq> 0 then filter (\<lambda>t. transaction.category_id t = c) query else query)"

definition filter_type :: "string option \<Rightarrow> transaction list \<Rightarrow> transaction list" where
  "filter_type transaction_type query =
     (case transaction_type of
        None \<Rightarrow> query
      | Some ty \<Rightarrow> if ty \<noteq> [] then filter (\<lambda>t. transaction.type t = ty) query else query)"

text \<open>
  \<^verbatim>\<open>ORDER BY transaction_date DESC\<close>. SQL leaves the order of rows with equal dates
  open; here it is the reverse of a stable ascending sort.
\<close>

definition order_by_date_desc :: "transaction list \<Rightarrow> transaction list" where
  "order_by_date_desc query = rev (sort_key transaction.transaction_date query)"

definition get_transactions ::
    "db \<Rightarrow> nat \<Rightarrow> nat \<Rightarrow> date option \<Rightarrow> date option \<Rightarrow> int option \<Rightarrow> string option \<Rightarrow>
     transaction list" where
  "get_transactions d skip limit start_date end_date cat_id transaction_type =
     take limit (drop skip (order_by_date_desc
       (filter_type transaction_type (filter_category cat_id
         (filter_end end_date (filter_start start_date (transactions d)))))))"

text \<open>
  The endpoint of \<^verbatim>\<open>app/main.py\<close>: \<^verbatim>\<open>Query(0, ge=0)\<close> and \<^verbatim>\<open>Query(100, ge=1, le=1000)\<close>
  reject a request out of bounds with status 422 before the handler runs. The body of
  that response is the framework's own list of errors; a fixed string stands for it.
\<close>

definition main_get_transactions ::
    "db \<Rightarrow> int \<Rightarrow> int \<Rightarrow> date option \<Rightarrow> date option \<Rightarrow> int option \<Rightarrow> string option \<Rightarrow>
     error + transaction list" where
  "main_get_transactions d skip limit start_date end_date cat_id ty =
     (if 0 \<le> skip \<and> 1 \<le> limit \<and> limit \<le> 1000
      then Inr (get_transactions d (nat skip) (nat limit) start_date end_date cat_id ty)
      else Inl (HTTPException 422 ''Unprocessable Entity''))"

definition get_transaction :: "db \<Rightarrow> int \<Rightarrow> transaction option" where
  "get_transaction d tid = find (\<lambda>t. transaction_id t = tid) (transactions d)"

text \<open>
  \<^verbatim>\<open>setattr\<close> for one column: the supplied value, or the prior one when the field was
  not supplied. \<^verbatim>\<open>None\<close> as a result is a \<^verbatim>\<open>NULL\<close> about to be written.
\<close>

definition set_field :: "'a option option \<Rightarrow> 'a option \<Rightarrow> 'a option" where
  "set_field supplied prior = (case supplied of None \<Rightarrow> prior | Some v \<Rightarrow> v)"

text \<open>
  The loop of \<^verbatim>\<open>setattr\<close> followed by \<^verbatim>\<open>commit\<close>: the row is rewritten unless a
  \<^verbatim>\<open>NULL\<close> would land in a column declared \<^verbatim>\<open>nullable=False\<close> or a check constraint
  fails, in which case the handler rolls back.
\<close>

definition commit_update ::
    "db \<Rightarrow> transaction \<Rightarrow> TransactionUpdate \<Rightarrow> db \<times> (error + transaction)" where
  "commit_update d db_transaction u =
     (case (set_field (TransactionUpdate.amount u) (Some (transaction.amount db_transaction)),
            set_field (TransactionUpdate.type u) (Some (transaction.type db_transaction)),
            set_field (TransactionUpdate.transaction_date u)
              (Some (transaction.transaction_date db_transaction)),
            set_field (TransactionUpdate.category_id u)
              (Some (transaction.category_id db_transaction))) of
        (Some a, Some ty, Some dt, Some c) \<Rightarrow>
          (let setattrs = (\<lambda>t. t\<lparr> transaction.amount := a, transaction.type := ty,
                  transaction.description :=
                    set_field (TransactionUpdate.description u)
                      (transaction.description db_transaction),
                  transaction.transaction_date := dt, transaction.category_id := c \<rparr>)
           in if 0 < a \<and> check_type ty
              then (d\<lparr>transactions :=
                        map (\<lambda>t. if transaction_id t = transaction_id db_transaction
                                 then setattrs t else t) (transactions d)\<rparr>,
                    Inr (setattrs db_transaction))
              else (d, Inl integrity_error))
      | _ \<Rightarrow> (d, Inl integrity_error))"

definition update_transaction ::
    "db \<Rightarrow> int \<Rightarrow> TransactionUpdate \<Rightarrow> db \<times> (error + transaction)" where
  "update_transaction d tid u =
     (case get_transaction d tid of
        None \<Rightarrow> (d, Inl (HTTPException 404 (transaction_not_found_detail tid)))
      | Some db_transaction \<Rightarrow>
          (case TransactionUpdate.category_id u of
             Some cid \<Rightarrow>
               (case (case cid of None \<Rightarrow> None | Some c \<Rightarrow> get_category d c) of
                  None \<Rightarrow> (d, Inl (HTTPException 400 (category_not_found_detail cid)))
                | Some category \<Rightarrow> commit_update d db_transaction u)
           | None \<Rightarrow> commit_update d db_transaction u))"


subsection \<open>Budgets\<close>

text \<open>
  The update branch commits outside any handler, so a violated check constraint there
  surfaces as the uncaught \<^verbatim>\<open>IntegrityError\<close>.
\<close>

definition create_or_update_budget ::
    "db \<Rightarrow> int \<Rightarrow> BudgetCreate \<Rightarrow> db \<times> (error + budget)" where
  "create_or_update_budget d now b =
     (case get_category d (BudgetCreate.category_id b) of
        None \<Rightarrow>
          (d, Inl (HTTPException 400
                     (category_not_found_detail (Some (BudgetCreate.category_id b)))))
      | Some category \<Rightarrow>
          if category.type category \<noteq> ''EXPENSE''
          then (d, Inl (HTTPException 400 ''Budgets can only be set for expense categories''))
          else
            (case find (\<lambda>x. budget.category_id x = BudgetCreate.category_id b) (budgets d) of
               Some existing \<Rightarrow>
                 (let setattrs = (\<lambda>x. x\<lparr> budget.amount := BudgetCreate.amount b,
                                         budget.period := BudgetCreate.period b \<rparr>)
                  in if 0 < BudgetCreate.amount b
                     then (d\<lparr>budgets :=
                               map (\<lambda>x. if budget.budget_id x = budget.budget_id existing
                                        then setattrs x else x) (budgets d)\<rparr>,
                           Inr (setattrs existing))
                     else (d, Inl IntegrityError))
             | None \<Rightarrow>
                 (let db_budget =
                        \<lparr> budget.budget_id = next_id (map budget.budget_id (budgets d)),
                          budget.category_id = BudgetCreate.category_id b,
                          budget.amount = BudgetCreate.amount b,
                          budget.period = BudgetCreate.period b,
                          budget.created_at = now \<rparr>
                  in if 0 < budget.amount db_budget
                     then (d\<lparr>budgets := budgets d @ [db_budget]\<rparr>, Inr db_budget)
                     else (d, Inl integrity_error))))"

section \<open>Registration (\<^verbatim>\<open>app/auth.py\<close>)\<close>

text \<open>
  \<^verbatim>\<open>hash_password\<close>: the SHA-256 hex digest of the first 16 characters of the secret
  key followed by the password. The digest function of \<^verbatim>\<open>hashlib\<close> and the secret key
  of the environment are arguments.
\<close>

definition hash_password :: "(string \<Rightarrow> string) \<Rightarrow> string \<Rightarrow> string \<Rightarrow> string" where
  "hash_password sha256_hexdigest secret_key password =
     (let salt = take 16 secret_key in sha256_hexdigest (salt @ password))"

definition get_password_hash :: "(string \<Rightarrow> string) \<Rightarrow> string \<Rightarrow> string \<Rightarrow> string" where
  "get_password_hash sha256_hexdigest secret_key password =
     hash_password sha256_hexdigest secret_key password"

definition get_user_by_username :: "db \<Rightarrow> string \<Rightarrow> user option" where
  "get_user_by_username d un = find (\<lambda>u. username u = un) (users d)"

definition get_user_by_email :: "db \<Rightarrow> string \<Rightarrow> user option" where
  "get_user_by_email d em = find (\<lambda>u. email u = em) (users d)"

definition create_user ::
    "(string \<Rightarrow> string) \<Rightarrow> string \<Rightarrow> db \<Rightarrow> int \<Rightarrow> string \<Rightarrow> string \<Rightarrow> string \<Rightarrow>
     string option \<Rightarrow> db \<times> (error + user)" where
  "create_user sha256_hexdigest secret_key d now un em password fn =
     (if get_user_by_username d un \<noteq> None
      then (d, Inl (HTTPException 400 ''Username already registered''))
      else if get_user_by_email d em \<noteq> None
      then (d, Inl (HTTPException 400 ''Email already registered''))
      else
        (let hashed = get_password_hash sha256_hexdigest secret_key password;
             db_user = \<lparr> user_id = next_id (map user_id (users d)),
                         username = un, email = em, hashed_password = hashed,
                         full_name = fn, is_active = True, user.created_at = now \<rparr>
         in (d\<lparr>users := users d @ [db_user]\<rparr>, Inr db_user)))"

text \<open>A store with a single registered user.\<close>

definition user_db :: db where
  "user_db =
     \<lparr> categories = [], transactions = [], budgets = [],
       users = [\<lparr> user_id = 1, username = ''alice'', email = ''alice@example.org'',
                  hashed_password = ''x'', full_name = None, is_active = True,
                  user.created_at = 0 \<rparr>] \<rparr>"

text \<open>
  A second category called Rent, and an expense on a category that does not exist.
\<close>

definition rent_again :: CategoryCreate where
  "rent_again = \<lparr> CategoryCreate.name = ''Rent'', CategoryCreate.type = ''EXPENSE'' \<rparr>"

definition orphan_expense :: TransactionCreate where
  "orphan_expense =
     \<lparr> TransactionCreate.amount = 25, TransactionCreate.type = ''EXPENSE'',
       TransactionCreate.description = None,
       TransactionCreate.transaction_date = (2024, 3, 12),
       TransactionCreate.category_id = 99 \<rparr>"

text \<open>The row \<open>old\<close> after the assignments of the update \<open>u\<close>, when none writes a \<^verbatim>\<open>NULL\<close>.\<close>

definition updated_row :: "TransactionUpdate \<Rightarrow> transaction \<Rightarrow> transaction \<Rightarrow> bool" where
  "updated_row u old new =
     (transaction_id new = transaction_id old \<and>
      transaction.created_at new = transaction.created_at old \<and>
      (case TransactionUpdate.amount u of
         None \<Rightarrow> transaction.amount new = transaction.amount old
       | Some v \<Rightarrow> v = Some (transaction.amount new)) \<and>
      (case TransactionUpdate.type u of
         None \<Rightarrow> transaction.type new = transaction.type old
       | Some v \<Rightarrow> v = Some (transaction.type new)) \<and>
      (case TransactionUpdate.description u of
         None \<Rightarrow> transaction.description new = transaction.description old
       | Some v \<Rightarrow> transaction.description new = v) \<and>
      (case TransactionUpdate.transaction_date u of
         None \<Rightarrow> transaction.transaction_date new = transaction.transaction_date old
       | Some v \<Rightarrow> v = Some (transaction.transaction_date new)) \<and>
      (case TransactionUpdate.category_id u of
         None \<Rightarrow> transaction.category_id new = transaction.category_id old
       | Some v \<Rightarrow> v = Some (transaction.category_id new)))"

text \<open>
  Three requests: one that supplies nothing, one that supplies the amount 1800 only, one
  that supplies the category 99 only.
\<close>

definition empty_update :: TransactionUpdate where
  "empty_update =
     \<lparr> TransactionUpdate.amount = None, TransactionUpdate.type = None,
       TransactionUpdate.description = None, TransactionUpdate.transaction_date = None,
       TransactionUpdate.category_id = None \<rparr>"

definition amount_update :: TransactionUpdate where
  "amount_update = empty_update\<lparr> TransactionUpdate.amount := Some (Some 1800) \<rparr>"

definition category_update :: TransactionUpdate where
  "category_update = empty_update\<lparr> TransactionUpdate.category_id := Some (Some 99) \<rparr>"

text \<open>Two budget requests for category 6.\<close>

definition food_500 :: BudgetCreate where
  "food_500 = \<lparr> BudgetCreate.category_id = 6, BudgetCreate.amount = 500,
                BudgetCreate.period = ''MONTHLY'' \<rparr>"

definition food_750 :: BudgetCreate where
  "food_750 = \<lparr> BudgetCreate.category_id = 6, BudgetCreate.amount = 750,
                BudgetCreate.period = ''WEEKLY'' \<rparr>"

section \<open>Basic facts\<close>

lemma filter_range:
  "filter_end e (filter_start s xs) =
     filter (\<lambda>t. in_range s e (transaction.transaction_date t)) xs"
  by (cases s; cases e) (auto simp: filter_end_def filter_start_def in_range_def intro: filter_cong)

lemma find_Some_ex: "(find P xs \<noteq> None) = (\<exists>x\<in>set xs. P x)"
  by (auto simp: find_None_iff)

lemma find_None_all: "(find P xs = None) = (\<forall>x\<in>set xs. \<not> P x)"
  by (auto simp: find_None_iff)

section \<open>Summary\<close>

text \<open>
  C1 (as amended). For every store and optional inclusive date range, and whatever the
  float arithmetic, \<open>get_summary\<close> returns \<open>total_income\<close> equal to the sum of the
  INCOME amounts in range rounded to two places, \<open>total_expenses\<close> likewise for EXPENSE,
  \<open>transaction_count\<close> equal to the number of transactions in range, and \<open>balance\<close>
  equal to the difference of the two unrounded sums, rounded to two places.
\<close>

theorem get_summary_fields:
  "total_income (get_summary ops d s e) = py_round ops (range_total ops d s e ''INCOME'') 2 \<and>
   total_expenses (get_summary ops d s e) = py_round ops (range_total ops d s e ''EXPENSE'') 2 \<and>
   transaction_count (get_summary ops d s e) =
     length (filter (\<lambda>t. in_range s e (transaction.transaction_date t)) (transactions d)) \<and>
   SummaryResponse.balance (get_summary ops d s e) =
     py_round ops
       (py_sub ops (range_total ops d s e ''INCOME'') (range_total ops d s e ''EXPENSE'')) 2"
  by (simp add: get_summary_def Let_def filter_range range_total_def)

text \<open>
  C1 as stated fails: the balance is rounded from the unrounded sums, so it need not be
  the difference of the two rounded totals. In binary64, an income of 100.006 and an
  expense of 50.012 give the totals 100.01 and 50.01 and the balance 49.99, while
  100.01 - 50.01 is 50.00000000000001.
\<close>

theorem get_summary_balance_counterexample:
  "get_summary binary64 summary_db None None =
     \<lparr> total_income = fl (10001 / 100), total_expenses = fl (5001 / 100),
       SummaryResponse.balance = fl (4999 / 100), transaction_count = 2 \<rparr> \<and>
   fl (4999 / 100) \<noteq> float_sub binary64 (fl (10001 / 100)) (fl (5001 / 100)) \<and>
   fl (4999 / 100) \<noteq> fl (10001 / 100) - fl (5001 / 100)"
  by code_simp

section \<open>Budget status\<close>

lemma py_round_zero: "py_round ops 0 n = 0"
  by (simp add: py_round_def)

lemma valid_date_month_first: "valid_date today \<Longrightarrow> valid_date (month_first today)"
  by (auto simp: valid_date_def month_first_def date_year_def date_month_def date_day_def
      days_in_month_def)

lemma valid_date_month_last: "valid_date today \<Longrightarrow> valid_date (month_last today)"
  by (auto simp: valid_date_def month_last_def date_year_def date_month_def date_day_def
      days_in_month_def)

lemma default_range_valid:
  assumes "valid_date today"
  shows "default_range today start_date end_date = Inr (budget_range today start_date end_date)"
proof -
  have m: "1 \<le> date_month today \<and> date_month today \<le> 12"
    using assms by (simp add: valid_date_def)
  have f: "py_date (date_year today) (date_month today) 1 = Inr (month_first today)"
    using valid_date_month_first [OF assms] by (simp add: py_date_def month_first_def)
  have l: "py_date (date_year today) (date_month today)
             (days_in_month (date_year today) (date_month today)) = Inr (month_last today)"
    using valid_date_month_last [OF assms] by (simp add: py_date_def month_last_def)
  show ?thesis
    by (cases start_date; cases end_date)
       (simp_all add: default_range_def and_then_def monthrange_def m f l budget_range_def)
qed

lemma budget_status_fields:
  "budget_status ops d s e b =
     \<lparr> BudgetStatus.budget_id = budget.budget_id b,
       BudgetStatus.category_id = budget.category_id b,
       category_name = (case get_category d (budget.category_id b) of
                          Some c \<Rightarrow> category.name c | None \<Rightarrow> ''Unknown''),
       budget_amount = budget.amount b,
       spent_amount = py_round ops (spent_in ops d (budget.category_id b) s e) 2,
       remaining =
         py_round ops (float_sub ops (budget.amount b) (spent_in ops d (budget.category_id b) s e)) 2,
       percentage_used =
         (if budget.amount b \<le> 0 then 0
          else py_round ops
                 (float_mul ops
                    (float_div ops (spent_in ops d (budget.category_id b) s e) (budget.amount b))
                    100) 1),
       is_over_budget = (budget.amount b < spent_in ops d (budget.category_id b) s e) \<rparr>"
  by (simp add: budget_status_def Let_def spent_in_def py_round_zero not_less)

lemma get_budgets_with_status_valid:
  "valid_date today \<Longrightarrow>
   get_budgets_with_status ops d today start_date end_date =
     Inr (map (budget_status ops d (fst (budget_range today start_date end_date))
                                   (snd (budget_range today start_date end_date))) (budgets d))"
  by (simp add: get_budgets_with_status_def default_range_valid and_then_def split_beta)

lemma binary64_example_4500:
  "py_round binary64 4500 2 = 4500"
  "py_round binary64 (float_sub binary64 10000 4500) 2 = 5500"
  "py_round binary64 (float_mul binary64 (float_div binary64 4500 10000) 100) (Suc 0) = 45"
  by code_simp+

lemma binary64_example_12000:
  "py_round binary64 (float_sub binary64 10000 12000) 2 = - 2000"
  by code_simp

text \<open>
  C2 (as amended). For every budget row, in the order of the table, and whatever the
  float arithmetic, \<open>get_budgets_with_status\<close> takes \<open>spent\<close> to be the database's sum
  of the amounts of the transactions of the budget's category inside the inclusive
  range and reports \<open>spent_amount\<close> as \<open>spent\<close> rounded to two places, \<open>remaining\<close> as
  \<open>amount - spent\<close> rounded to two places (possibly negative), \<open>percentage_used\<close> as
  \<open>spent / amount * 100\<close> rounded to one place, with 0 and no division when the amount
  is not positive, and \<open>is_over_budget\<close> as \<open>amount < spent\<close> on the unrounded sum. In
  binary64 an amount of 10000 with 4500 spent gives 4500, 5500, 45 and no overrun; with
  12000 spent it gives an overrun and a remainder of -2000.
\<close>

theorem get_budgets_with_status_rows:
  assumes "valid_date today"
    and "budget_range today start_date end_date = (s, e)"
  shows "\<exists>r. get_budgets_with_status ops d today start_date end_date = Inr r \<and>
           length r = length (budgets d) \<and>
           (\<forall>i<length (budgets d).
              let b = budgets d ! i; st = r ! i;
                  spent = spent_in ops d (budget.category_id b) s e
              in BudgetStatus.budget_id st = budget.budget_id b \<and>
                 BudgetStatus.category_id st = budget.category_id b \<and>
                 budget_amount st = budget.amount b \<and>
                 spent_amount st = py_round ops spent 2 \<and>
                 remaining st = py_round ops (float_sub ops (budget.amount b) spent) 2 \<and>
                 percentage_used st =
                   (if budget.amount b \<le> 0 then 0
                    else py_round ops
                           (float_mul ops (float_div ops spent (budget.amount b)) 100) 1) \<and>
                 is_over_budget st = (budget.amount b < spent) \<and>
                 (ops = binary64 \<and> budget.amount b = 10000 \<and> spent = 4500 \<longrightarrow>
                    spent_amount st = 4500 \<and> remaining st = 5500 \<and>
                    percentage_used st = 45 \<and> \<not> is_over_budget st) \<and>
                 (ops = binary64 \<and> budget.amount b = 10000 \<and> spent = 12000 \<longrightarrow>
                    is_over_budget st \<and> remaining st = - 2000))"
proof -
  let ?r = "map (budget_status ops d s e) (budgets d)"
  have r: "get_budgets_with_status ops d today start_date end_date = Inr ?r"
    using assms by (simp add: get_budgets_with_status_valid)
  have general: "BudgetStatus.budget_id (budget_status ops d s e b) = budget.budget_id b \<and>
      BudgetStatus.category_id (budget_status ops d s e b) = budget.category_id b \<and>
      budget_amount (budget_status ops d s e b) = budget.amount b \<and>
      spent_amount (budget_status ops d s e b) =
        py_round ops (spent_in ops d (budget.category_id b) s e) 2 \<and>
      remaining (budget_status ops d s e b) =
        py_round ops
          (float_sub ops (budget.amount b) (spent_in ops d (budget.category_id b) s e)) 2 \<and>
      percentage_used (budget_status ops d s e b) =
        (if budget.amount b \<le> 0 then 0
         else py_round ops
                (float_mul ops
                   (float_div ops (spent_in ops d (budget.category_id b) s e) (budget.amount b))
                   100) 1) \<and>
      is_over_budget (budget_status ops d s e b) =
        (budget.amount b < spent_in ops d (budget.category_id b) s e)" for b
    by (simp add: budget_status_fields)
  have ex1: "spent_amount (budget_status ops d s e b) = 4500 \<and>
      remaining (budget_status ops d s e b) = 5500 \<and>
      percentage_used (budget_status ops d s e b) = 45 \<and>
      \<not> is_over_budget (budget_status ops d s e b)"
    if "ops = binary64" "budget.amount b = 10000"
      "spent_in ops d (budget.category_id b) s e = 4500" for b
    using that(2) that(3) unfolding that(1)
    by (simp add: budget_status_fields binary64_example_4500)
  have ex2: "is_over_budget (budget_status ops d s e b) \<and>
      remaining (budget_status ops d s e b) = - 2000"
    if "ops = binary64" "budget.amount b = 10000"
      "spent_in ops d (budget.category_id b) s e = 12000" for b
    using that(2) that(3) unfolding that(1)
    by (simp add: budget_status_fields binary64_example_12000)
  show ?thesis
  proof (intro exI conjI allI impI)
    show "get_budgets_with_status ops d today start_date end_date = Inr ?r" by (rule r)
    show "length ?r = length (budgets d)" by simp
    fix i assume i: "i < length (budgets d)"
    then have st: "?r ! i = budget_status ops d s e (budgets d ! i)" by simp
    show "let b = budgets d ! i; st = ?r ! i;
              spent = spent_in ops d (budget.category_id b) s e
          in BudgetStatus.budget_id st = budget.budget_id b \<and>
             BudgetStatus.category_id st = budget.category_id b \<and>
             budget_amount st = budget.amount b \<and>
             spent_amount st = py_round ops spent 2 \<and>
             remaining st = py_round ops (float_sub ops (budget.amount b) spent) 2 \<and>
             percentage_used st =
               (if budget.amount b \<le> 0 then 0
                else py_round ops
                       (float_mul ops (float_div ops spent (budget.amount b)) 100) 1) \<and>
             is_over_budget st = (budget.amount b < spent) \<and>
             (ops = binary64 \<and> budget.amount b = 10000 \<and> spent = 4500 \<longrightarrow>
                spent_amount st = 4500 \<and> remaining st = 5500 \<and>
                percentage_used st = 45 \<and> \<not> is_over_budget st) \<and>
             (ops = binary64 \<and> budget.amount b = 10000 \<and> spent = 12000 \<longrightarrow>
                is_over_budget st \<and> remaining st = - 2000)"
      unfolding Let_def st
      using general [of "budgets d ! i"] ex1 [of "budgets d ! i"] ex2 [of "budgets d ! i"]
      by blast
  qed
qed


text \<open>
  The theorem at the March 2024 store in binary64: both bounds default to the current
  month, the February expense is left out, and the two budgets report the values of
  the examples.
\<close>

theorem get_budgets_with_status_rows_witness:
  "valid_date (2024, 3, 15) \<and>
   budget_range (2024, 3, 15) None None = ((2024, 3, 1), (2024, 3, 31)) \<and>
   (\<exists>r. get_budgets_with_status binary64 budget_db (2024, 3, 15) None None = Inr r \<and>
        length r = 2 \<and>
        spent_amount (r ! 0) = 4500 \<and> remaining (r ! 0) = 5500 \<and>
        percentage_used (r ! 0) = 45 \<and> is_over_budget (r ! 0) = False \<and>
        spent_amount (r ! 1) = 12000 \<and> remaining (r ! 1) = - 2000 \<and>
        is_over_budget (r ! 1) = True)"
proof -
  have v: "valid_date (2024, 3, 15)"
    by (simp add: valid_date_def date_year_def date_month_def date_day_def days_in_month_def)
  have b: "budget_range (2024, 3, 15) None None = ((2024, 3, 1), (2024, 3, 31))"
    by (simp add: budget_range_def month_first_def month_last_def date_year_def date_month_def
        days_in_month_def)
  have s0: "spent_in binary64 budget_db 6 (2024, 3, 1) (2024, 3, 31) = 4500"
    by code_simp
  have s1: "spent_in binary64 budget_db 7 (2024, 3, 1) (2024, 3, 31) = 12000"
    by code_simp
  have r12: "py_round binary64 12000 2 = 12000"
    by code_simp
  have bs: "budgets budget_db = [mk_budget 1 6 10000, mk_budget 2 7 10000]"
    by (simp add: budget_db_def)
  from get_budgets_with_status_rows [OF v b, of binary64 budget_db]
  obtain r where r: "get_budgets_with_status binary64 budget_db (2024, 3, 15) None None = Inr r"
    "length r = length (budgets budget_db)"
    and rows: "\<forall>i<length (budgets budget_db).
              let b = budgets budget_db ! i; st = r ! i;
                  spent = spent_in binary64 budget_db (budget.category_id b)
                            (2024, 3, 1) (2024, 3, 31)
              in BudgetStatus.budget_id st = budget.budget_id b \<and>
                 BudgetStatus.category_id st = budget.category_id b \<and>
                 budget_amount st = budget.amount b \<and>
                 spent_amount st = py_round binary64 spent 2 \<and>
                 remaining st = py_round binary64 (float_sub binary64 (budget.amount b) spent) 2 \<and>
                 percentage_used st =
                   (if budget.amount b \<le> 0 then 0
                    else py_round binary64
                           (float_mul binary64 (float_div binary64 spent (budget.amount b)) 100)
                           1) \<and>
                 is_over_budget st = (budget.amount b < spent) \<and>
                 (binary64 = binary64 \<and> budget.amount b = 10000 \<and> spent = 4500 \<longrightarrow>
                    spent_amount st = 4500 \<and> remaining st = 5500 \<and>
                    percentage_used st = 45 \<and> \<not> is_over_budget st) \<and>
                 (binary64 = binary64 \<and> budget.amount b = 10000 \<and> spent = 12000 \<longrightarrow>
                    is_over_budget st \<and> remaining st = - 2000)"
    by blast
  from rows [rule_format, of 0] have r0: "spent_amount (r ! 0) = 4500 \<and> remaining (r ! 0) = 5500 \<and>
        percentage_used (r ! 0) = 45 \<and> is_over_budget (r ! 0) = False"
    by (simp add: bs Let_def mk_budget_def s0)
  from rows [rule_format, of 1] have r1: "spent_amount (r ! 1) = 12000 \<and>
        remaining (r ! 1) = - 2000 \<and> is_over_budget (r ! 1) = True"
    by (simp add: bs Let_def mk_budget_def s1 r12)
  from r r0 r1 v b show ?thesis by (simp add: bs)
qed

text \<open>
  C2 as stated fails on the reported fields, which are rounded: in binary64, with a
  budget of 3 and 1 spent, \<open>percentage_used\<close> is 33.3 while \<open>spent / amount * 100\<close> is
  33.33333333333333.
\<close>

theorem percentage_used_counterexample:
  "get_budgets_with_status binary64 thirds_db (2024, 3, 15)
     (Some (2024, 3, 1)) (Some (2024, 3, 31)) =
     Inr [\<lparr> BudgetStatus.budget_id = 1, BudgetStatus.category_id = 6,
            category_name = ''Food & Dining'', budget_amount = 3, spent_amount = 1,
            remaining = 2, percentage_used = fl (333 / 10), is_over_budget = False \<rparr>] \<and>
   fl (333 / 10) \<noteq> float_mul binary64 (float_div binary64 1 3) 100"
  by code_simp

text \<open>
  C10. The two bounds default independently. When only \<open>start_date\<close> is supplied the
  range is from it to the last day of the current month, and when only \<open>end_date\<close> is
  supplied the range is from the first day of the current month to it; there is one
  status per budget, and its spent amount, remainder and overrun are those of the
  transactions of the budget's category dated inside that mixed range.
\<close>

theorem default_bounds_independent:
  assumes "valid_date today"
  shows "default_range today (Some s) None = Inr (s, month_last today) \<and>
         default_range today None (Some e) = Inr (month_first today, e) \<and>
         (\<exists>r. get_budgets_with_status ops d today (Some s) None = Inr r \<and>
              length r = length (budgets d) \<and>
              (\<forall>i<length (budgets d).
                 let b = budgets d ! i;
                     spent = spent_in ops d (budget.category_id b) s (month_last today)
                 in BudgetStatus.budget_id (r ! i) = budget.budget_id b \<and>
                    spent_amount (r ! i) = py_round ops spent 2 \<and>
                    remaining (r ! i) = py_round ops (float_sub ops (budget.amount b) spent) 2 \<and>
                    is_over_budget (r ! i) = (budget.amount b < spent))) \<and>
         (\<exists>r. get_budgets_with_status ops d today None (Some e) = Inr r \<and>
              length r = length (budgets d) \<and>
              (\<forall>i<length (budgets d).
                 let b = budgets d ! i;
                     spent = spent_in ops d (budget.category_id b) (month_first today) e
                 in BudgetStatus.budget_id (r ! i) = budget.budget_id b \<and>
                    spent_amount (r ! i) = py_round ops spent 2 \<and>
                    remaining (r ! i) = py_round ops (float_sub ops (budget.amount b) spent) 2 \<and>
                    is_over_budget (r ! i) = (budget.amount b < spent))) \<and>
         get_budgets_with_status ops d today (Some s) None =
           get_budgets_with_status ops d today (Some s) (Some (month_last today)) \<and>
         get_budgets_with_status ops d today None (Some e) =
           get_budgets_with_status ops d today (Some (month_first today)) (Some e)"
  using assms
  by (simp add: default_range_valid get_budgets_with_status_valid budget_range_def
      budget_status_fields Let_def)

text \<open>
  On 15 March 2024 in binary64. A start of 1 February alone gives the range from
  1 February to 31 March: category 6 has 700 + 3000 + 1500 = 5200 spent, where the
  default month has 4500. An end of 5 March alone gives the range from 1 March to
  5 March: category 6 has 3000 spent and category 7 nothing.
\<close>

theorem default_bounds_independent_witness:
  "valid_date (2024, 3, 15) \<and>
   default_range (2024, 3, 15) (Some (2024, 2, 1)) None = Inr ((2024, 2, 1), (2024, 3, 31)) \<and>
   default_range (2024, 3, 15) None (Some (2024, 3, 5)) = Inr ((2024, 3, 1), (2024, 3, 5)) \<and>
   (\<exists>r. get_budgets_with_status binary64 budget_db (2024, 3, 15) (Some (2024, 2, 1)) None =
          Inr r \<and> length r = 2 \<and>
        spent_amount (r ! 0) = 5200 \<and> remaining (r ! 0) = 4800 \<and>
        is_over_budget (r ! 1) = True) \<and>
   (\<exists>r. get_budgets_with_status binary64 budget_db (2024, 3, 15) None (Some (2024, 3, 5)) =
          Inr r \<and> length r = 2 \<and>
        spent_amount (r ! 0) = 3000 \<and> spent_amount (r ! 1) = 0 \<and>
        is_over_budget (r ! 1) = False)"
proof -
  have v: "valid_date (2024, 3, 15)"
    by (simp add: valid_date_def date_year_def date_month_def date_day_def days_in_month_def)
  have ml: "month_last (2024, 3, 15) = (2024, 3, 31)"
    and mf: "month_first (2024, 3, 15) = (2024, 3, 1)"
    by (simp_all add: month_first_def month_last_def date_year_def date_month_def
        days_in_month_def)
  have bs: "budgets budget_db = [mk_budget 1 6 10000, mk_budget 2 7 10000]"
    by (simp add: budget_db_def)
  have s: "spent_in binary64 budget_db 6 (2024, 2, 1) (2024, 3, 31) = 5200"
    "spent_in binary64 budget_db 7 (2024, 2, 1) (2024, 3, 31) = 12000"
    "spent_in binary64 budget_db 6 (2024, 3, 1) (2024, 3, 5) = 3000"
    "spent_in binary64 budget_db 7 (2024, 3, 1) (2024, 3, 5) = 0"
    by code_simp+
  have rd: "py_round binary64 5200 2 = 5200" "py_round binary64 3000 2 = 3000"
    "py_round binary64 (float_sub binary64 10000 5200) 2 = 4800"
    by code_simp+
  note th = default_bounds_independent [OF v, where s = "(2024, 2, 1)" and e = "(2024, 3, 5)"
      and ops = binary64 and d = budget_db, unfolded ml mf]
  from th obtain r1 where r1:
    "get_budgets_with_status binary64 budget_db (2024, 3, 15) (Some (2024, 2, 1)) None = Inr r1"
    "length r1 = length (budgets budget_db)"
    and rows1: "\<forall>i<length (budgets budget_db).
                 let b = budgets budget_db ! i;
                     spent = spent_in binary64 budget_db (budget.category_id b)
                               (2024, 2, 1) (2024, 3, 31)
                 in BudgetStatus.budget_id (r1 ! i) = budget.budget_id b \<and>
                    spent_amount (r1 ! i) = py_round binary64 spent 2 \<and>
                    remaining (r1 ! i) =
                      py_round binary64 (float_sub binary64 (budget.amount b) spent) 2 \<and>
                    is_over_budget (r1 ! i) = (budget.amount b < spent)"
    by blast
  from th obtain r2 where r2:
    "get_budgets_with_status binary64 budget_db (2024, 3, 15) None (Some (2024, 3, 5)) = Inr r2"
    "length r2 = length (budgets budget_db)"
    and rows2: "\<forall>i<length (budgets budget_db).
                 let b = budgets budget_db ! i;
                     spent = spent_in binary64 budget_db (budget.category_id b)
                               (2024, 3, 1) (2024, 3, 5)
                 in BudgetStatus.budget_id (r2 ! i) = budget.budget_id b \<and>
                    spent_amount (r2 ! i) = py_round binary64 spent 2 \<and>
                    remaining (r2 ! i) =
                      py_round binary64 (float_sub binary64 (budget.amount b) spent) 2 \<and>
                    is_over_budget (r2 ! i) = (budget.amount b < spent)"
    by blast
  from rows1 [rule_format, of 0] have a0: "spent_amount (r1 ! 0) = 5200 \<and> remaining (r1 ! 0) = 4800"
    by (simp add: bs Let_def mk_budget_def s rd)
  from rows1 [rule_format, of 1] have a1: "is_over_budget (r1 ! 1) = True"
    by (simp add: bs Let_def mk_budget_def s)
  from rows2 [rule_format, of 0] have b0: "spent_amount (r2 ! 0) = 3000"
    by (simp add: bs Let_def mk_budget_def s rd)
  from rows2 [rule_format, of 1] have b1: "spent_amount (r2 ! 1) = 0 \<and>
      is_over_budget (r2 ! 1) = False"
    by (simp add: bs Let_def mk_budget_def s py_round_zero)
  from th have dr:
    "default_range (2024, 3, 15) (Some (2024, 2, 1)) None = Inr ((2024, 2, 1), (2024, 3, 31))"
    "default_range (2024, 3, 15) None (Some (2024, 3, 5)) = Inr ((2024, 3, 1), (2024, 3, 5))"
    by blast+
  from v dr r1 a0 a1 r2 b0 b1 show ?thesis by (simp add: bs)
qed

section \<open>Monthly trend\<close>

lemma mod_shift: "(m + 12 - 1) mod 12 = (m - 1) mod (12::int)"
proof -
  have "m + 12 - 1 = (m - 1) + 12" by simp
  then show ?thesis by (simp only: mod_add_self2)
qed

lemma div_shift: "(m + 12 - 1) div 12 = (m - 1) div (12::int) + 1"
proof -
  have "m + 12 - 1 = (m - 1) + 12" by simp
  then show ?thesis by (simp only: div_add_self2)
qed

lemma small_mod: "0 < m \<Longrightarrow> m \<le> 12 \<Longrightarrow> (m - 1) mod 12 = (m - 1 :: int)"
  by simp

lemma small_div: "0 < m \<Longrightarrow> m \<le> 12 \<Longrightarrow> (m - 1) div 12 = (0 :: int)"
  by simp

lemma wrap_month_eq:
  "m \<le> 12 \<Longrightarrow> wrap_month m y = ((m - 1) mod 12 + 1, y + (m - 1) div 12)"
proof (induction m y rule: wrap_month.induct)
  case (1 m y)
  show ?case
  proof (cases "m \<le> 0")
    case True
    then have "wrap_month m y = wrap_month (m + 12) (y - 1)"
      by (subst wrap_month.simps) simp
    also have "\<dots> = ((m + 12 - 1) mod 12 + 1, y - 1 + (m + 12 - 1) div 12)"
      using True by (intro "1.IH") simp_all
    also have "\<dots> = ((m - 1) mod 12 + 1, y + (m - 1) div 12)"
      by (simp only: mod_shift div_shift) simp
    finally show ?thesis .
  next
    case False
    then have "wrap_month m y = (m, y)"
      by (subst wrap_month.simps) simp
    moreover from False "1.prems" have "(m - 1) mod 12 = m - 1" "(m - 1) div 12 = 0"
      by (simp_all add: small_mod small_div)
    ultimately show ?thesis by simp
  qed
qed

lemma in_month_iff:
  assumes "valid_date x" and "1 \<le> m" and "m \<le> 12"
  shows "((y, m, 1) \<le> x \<and> x \<le> (y, m, days_in_month y m)) =
         (date_year x = y \<and> date_month x = m)"
proof -
  obtain a b c where x: "x = (a, b, c)" by (cases x) auto
  from assms(1) have c: "1 \<le> c" "c \<le> days_in_month a b"
    by (simp_all add: x valid_date_def date_year_def date_month_def date_day_def)
  show ?thesis
    using c by (auto simp: x date_year_def date_month_def)
qed

lemma wrap_month_index:
  assumes "m \<le> 12" and "0 \<le> i"
  shows "wrap_month (m - i) y =
           ((month_index y m - i) mod 12 + 1, (month_index y m - i) div 12)"
proof -
  have e: "month_index y m - i = 12 * y + (m - i - 1)"
    by (simp add: month_index_def)
  have "(12 * y + (m - i - 1)) mod 12 = (m - i - 1) mod 12"
    by (simp only: mod_mult_self4)
  moreover have "(12 * y + (m - i - 1)) div 12 = y + (m - i - 1) div 12"
    by (simp only: div_mult_self4)
  moreover have "wrap_month (m - i) y = ((m - i - 1) mod 12 + 1, y + (m - i - 1) div 12)"
    using assms by (intro wrap_month_eq) simp
  ultimately show ?thesis by (simp only: e)
qed


lemma month_filter:
  assumes "\<forall>t\<in>set txs. valid_date (transaction.transaction_date t)" and "1 \<le> m" and "m \<le> 12"
  shows "filter (\<lambda>t. (y, m, 1) \<le> transaction.transaction_date t \<and>
                      transaction.transaction_date t \<le> (y, m, days_in_month y m) \<and>
                      transaction.type t = ty) txs =
         filter (\<lambda>t. date_year (transaction.transaction_date t) = y \<and>
                      date_month (transaction.transaction_date t) = m \<and> transaction.type t = ty) txs"
proof (rule filter_cong [OF refl])
  fix t assume "t \<in> set txs"
  with assms(1) have "valid_date (transaction.transaction_date t)" by blast
  from in_month_iff [OF this assms(2) assms(3), of y]
  show "((y, m, 1) \<le> transaction.transaction_date t \<and>
         transaction.transaction_date t \<le> (y, m, days_in_month y m) \<and> transaction.type t = ty) =
        (date_year (transaction.transaction_date t) = y \<and> date_month (transaction.transaction_date t) = m \<and>
         transaction.type t = ty)"
    by blast
qed

lemma date_month_triple: "date_month (y, m, d) = m"
  by (simp add: date_month_def)

lemma trend_entry_ok:
  assumes today: "valid_date today"
    and i: "0 \<le> i" "12 \<le> month_index (date_year today) (date_month today) - i"
    and dates: "\<forall>t\<in>set (transactions d). valid_date (transaction.transaction_date t)"
  shows "trend_entry ops d today i =
           Inr (trend_spec ops d (month_index (date_year today) (date_month today) - i))"
proof -
  define idx where "idx = month_index (date_year today) (date_month today) - i"
  define y where "y = idx div 12"
  define m where "m = idx mod 12 + 1"
  from today have t: "date_month today \<le> 12" "date_year today \<le> 9999"
    by (simp_all add: valid_date_def)
  have w: "wrap_month (date_month today - i) (date_year today) = (m, y)"
    using wrap_month_index [OF t(1) i(1)] by (simp add: idx_def y_def m_def)
  have m: "1 \<le> m" "m \<le> 12"
    by (simp_all add: m_def)
  have "12 \<le> idx" using i(2) by (simp add: idx_def)
  then have y1: "1 \<le> y" by (simp add: y_def)
  have "idx \<le> 12 * date_year today + 11"
    using i(1) t(1) by (simp add: idx_def month_index_def)
  then have "idx div 12 \<le> (12 * date_year today + 11) div 12"
    by (intro zdiv_mono1) simp_all
  also have "(12 * date_year today + 11) div 12 = date_year today"
    by simp
  finally have y2: "y \<le> 9999" using t(2) by (simp add: y_def)
  have dim: "28 \<le> days_in_month y m" "days_in_month y m \<le> 31"
    by (simp_all add: days_in_month_def)
  have d1: "py_date y m 1 = Inr (y, m, 1)"
    using m y1 y2 dim
    by (simp add: py_date_def valid_date_def date_year_def date_month_def date_day_def)
  have d2: "py_date y m (days_in_month y m) = Inr (y, m, days_in_month y m)"
    using m y1 y2 dim
    by (simp add: py_date_def valid_date_def date_year_def date_month_def date_day_def)
  have mr: "monthrange y m = Inr (days_in_month y m)"
    using m by (simp add: monthrange_def)
  note f = month_filter [OF dates m, of y]
  show ?thesis
    unfolding trend_entry_def w idx_def [symmetric]
    by (simp add: d1 d2 mr and_then_def f Let_def trend_spec_def y_def [symmetric]
        m_def [symmetric] month_total_def date_month_triple)
qed

lemma trend_loop_map:
  "\<forall>i\<in>set xs. trend_entry ops d today i = Inr (f i) \<Longrightarrow>
   trend_loop ops d today xs acc = Inr (acc @ map f xs)"
  by (induction xs arbitrary: acc) (simp_all add: and_then_def)

lemma rev_upto_nth:
  assumes "k < nat n"
  shows "rev [0..n - 1] ! k = n - 1 - int k"
proof -
  from assms have kn: "int k < n" by (simp only: zless_nat_eq_int_zless)
  have e: "int (nat n - Suc k) = n - 1 - int k"
    using assms kn by linarith
  have "rev [0..n - 1] ! k = [0..n - 1] ! (nat n - Suc k)"
    using assms by (simp add: rev_nth)
  also have "\<dots> = 0 + int (nat n - Suc k)"
    by (rule nth_upto) (use e kn in linarith)
  finally show ?thesis by (simp only: e)
qed

text \<open>
  C3. For \<open>n \<ge> 1\<close> and a current date whose \<open>n\<close> months do not reach back before
  January of year 1, and whatever the float arithmetic, \<open>get_monthly_trend\<close> returns
  exactly \<open>n\<close> entries; entry
  \<open>k\<close> is the entry of the calendar month of index \<open>M - (n - 1) + k\<close>, where
  \<open>M\<close> is the index of the current month, so the months are consecutive, oldest
  first, end at the current month and cross year boundaries by the index arithmetic;
  a month without transactions has zero sums. The store's dates are calendar dates.
\<close>

theorem get_monthly_trend_months:
  assumes today: "valid_date today"
    and n: "1 \<le> n"
    and first: "12 \<le> month_index (date_year today) (date_month today) - (n - 1)"
    and dates: "\<forall>t\<in>set (transactions d). valid_date (transaction.transaction_date t)"
  shows "\<exists>r. get_monthly_trend ops d today n = Inr r \<and>
           length r = nat n \<and>
           (\<forall>k<nat n.
              r ! k = trend_spec ops d
                        (month_index (date_year today) (date_month today) - (n - 1) + int k)) \<and>
           (\<forall>k<nat n. \<forall>y m.
              (y, m) = ((month_index (date_year today) (date_month today) - (n - 1) + int k) div 12,
                        (month_index (date_year today) (date_month today) - (n - 1) + int k) mod 12 + 1) \<and>
              (\<forall>t\<in>set (transactions d).
                 \<not> (date_year (transaction.transaction_date t) = y \<and> date_month (transaction.transaction_date t) = m)) \<longrightarrow>
              income (r ! k) = 0 \<and> expenses (r ! k) = 0 \<and> MonthlyTrend.balance (r ! k) = 0)"
proof -
  define M where "M = month_index (date_year today) (date_month today)"
  define f where "f i = trend_spec ops d (M - i)" for i
  have "\<forall>i\<in>set (rev [0..n - 1]). trend_entry ops d today i = Inr (f i)"
  proof
    fix i assume "i \<in> set (rev [0..n - 1])"
    then have i: "0 \<le> i" "i \<le> n - 1" by simp_all
    with first have "12 \<le> month_index (date_year today) (date_month today) - i" by simp
    from trend_entry_ok [OF today i(1) this dates]
    show "trend_entry ops d today i = Inr (f i)" by (simp add: f_def M_def)
  qed
  then have r: "get_monthly_trend ops d today n = Inr (map f (rev [0..n - 1]))"
    using trend_loop_map [where xs = "rev [0..n - 1]" and f = f and acc = "[]"]
    by (simp add: get_monthly_trend_def)
  have len: "length (map f (rev [0..n - 1])) = nat n" by simp
  have nth: "map f (rev [0..n - 1]) ! k = trend_spec ops d (M - (n - 1) + int k)" if "k < nat n" for k
  proof -
    have "map f (rev [0..n - 1]) ! k = f (rev [0..n - 1] ! k)"
      using that by (intro nth_map) simp
    also have "\<dots> = f (n - 1 - int k)" by (simp only: rev_upto_nth [OF that])
    also have "\<dots> = trend_spec ops d (M - (n - 1) + int k)"
      by (simp add: f_def algebra_simps)
    finally show ?thesis .
  qed
  have zero: "income (trend_spec ops d idx) = 0 \<and> expenses (trend_spec ops d idx) = 0 \<and>
              MonthlyTrend.balance (trend_spec ops d idx) = 0"
    if "\<forall>t\<in>set (transactions d).
          \<not> (date_year (transaction.transaction_date t) = idx div 12 \<and>
             date_month (transaction.transaction_date t) = idx mod 12 + 1)" for idx
  proof -
    have "filter (\<lambda>t. date_year (transaction.transaction_date t) = idx div 12 \<and>
                      date_month (transaction.transaction_date t) = idx mod 12 + 1 \<and>
                      transaction.type t = ty) (transactions d) = []" for ty
      using that by (auto simp add: filter_empty_conv)
    then show ?thesis
      by (simp add: trend_spec_def Let_def month_total_def py_sum_def py_sub_def py_round_zero)
  qed
  show ?thesis
    using r len nth zero unfolding M_def by (intro exI [of _ "map f (rev [0..n - 1])"]) auto
qed

text \<open>
  Three months ending in February 2024, in binary64: December 2023, January 2024 (no
  transactions, all zero), February 2024.
\<close>

theorem get_monthly_trend_months_witness:
  "valid_date (2024, 2, 10) \<and> (1::int) \<le> 3 \<and>
   (\<exists>r. get_monthly_trend binary64 trend_db (2024, 2, 10) 3 = Inr r \<and> length r = 3 \<and>
        month (r ! 0) = ''December'' \<and> year (r ! 0) = 2023 \<and>
        income (r ! 0) = 5000 \<and> expenses (r ! 0) = 1200 \<and>
        month (r ! 1) = ''January'' \<and> year (r ! 1) = 2024 \<and>
        income (r ! 1) = 0 \<and> expenses (r ! 1) = 0 \<and> MonthlyTrend.balance (r ! 1) = 0 \<and>
        month (r ! 2) = ''February'' \<and> year (r ! 2) = 2024 \<and>
        income (r ! 2) = 0 \<and> expenses (r ! 2) = 800)"
proof -
  have v: "valid_date (2024, 2, 10)"
    by (simp add: valid_date_def date_year_def date_month_def date_day_def days_in_month_def
        isleap_def)
  have n: "(1::int) \<le> 3" by simp
  have first: "12 \<le> month_index (date_year (2024, 2, 10)) (date_month (2024, 2, 10)) - (3 - 1)"
    by (simp add: month_index_def date_year_def date_month_def)
  have dates: "\<forall>t\<in>set (transactions trend_db). valid_date (transaction.transaction_date t)"
    by (simp add: trend_db_def mk_transaction_def valid_date_def date_year_def date_month_def
        date_day_def days_in_month_def isleap_def)
  have idx: "month_index (date_year (2024, 2, 10)) (date_month (2024, 2, 10)) - (3 - 1) = 24287"
    by (simp add: month_index_def date_year_def date_month_def)
  have s0: "trend_spec binary64 trend_db 24287 =
      \<lparr> month = ''December'', year = 2023, income = 5000, expenses = 1200,
        MonthlyTrend.balance = 3800 \<rparr>"
    by code_simp
  have s1: "trend_spec binary64 trend_db 24288 =
      \<lparr> month = ''January'', year = 2024, income = 0, expenses = 0,
        MonthlyTrend.balance = 0 \<rparr>"
    by code_simp
  have s2: "trend_spec binary64 trend_db 24289 =
      \<lparr> month = ''February'', year = 2024, income = 0, expenses = 800,
        MonthlyTrend.balance = - 800 \<rparr>"
    by code_simp
  from get_monthly_trend_months [OF v n first dates, of binary64]
  obtain r where r: "get_monthly_trend binary64 trend_db (2024, 2, 10) 3 = Inr r" "length r = nat 3"
    and rows: "\<forall>k<nat 3. r ! k = trend_spec binary64 trend_db (24287 + int k)"
    unfolding idx by blast
  from rows have "r ! 0 = trend_spec binary64 trend_db 24287" "r ! 1 = trend_spec binary64 trend_db 24288"
    "r ! 2 = trend_spec binary64 trend_db 24289"
    by simp_all
  with r v show ?thesis by (simp add: s0 s1 s2)
qed

section \<open>Registration\<close>

text \<open>
  C7. \<open>create_user\<close> fails with the detail \<open>Username already registered\<close> when the
  username exists, whatever the email; with \<open>Email already registered\<close> when the
  username is free and the email exists; and only when neither exists is the password
  hashed and the user appended to the store. Both failures carry status 400 and leave
  the store as it was.
\<close>

theorem create_user_conflicts:
  "((\<exists>u\<in>set (users d). username u = un) \<longrightarrow>
      create_user h k d now un em pw fn =
        (d, Inl (HTTPException 400 ''Username already registered''))) \<and>
   ((\<forall>u\<in>set (users d). username u \<noteq> un) \<and> (\<exists>u\<in>set (users d). email u = em) \<longrightarrow>
      create_user h k d now un em pw fn =
        (d, Inl (HTTPException 400 ''Email already registered''))) \<and>
   ((\<forall>u\<in>set (users d). username u \<noteq> un) \<and> (\<forall>u\<in>set (users d). email u \<noteq> em) \<longrightarrow>
      (\<exists>u. create_user h k d now un em pw fn = (d\<lparr>users := users d @ [u]\<rparr>, Inr u) \<and>
           username u = un \<and> email u = em \<and> full_name u = fn \<and>
           hashed_password u = hash_password h k pw))"
proof -
  have un: "(get_user_by_username d un \<noteq> None) = (\<exists>u\<in>set (users d). username u = un)"
    by (simp only: get_user_by_username_def find_Some_ex)
  have em: "(get_user_by_email d em \<noteq> None) = (\<exists>u\<in>set (users d). email u = em)"
    by (simp only: get_user_by_email_def find_Some_ex)
  show ?thesis
    unfolding create_user_def un em
    by (auto simp: Let_def get_password_hash_def)
qed

text \<open>
  With alice registered: alice with alice's email reports the username, bob with
  alice's email reports the email, bob with a fresh email is stored. The digest is
  instantiated by list reversal to make the hashed value visible.
\<close>

theorem create_user_conflicts_witness:
  "create_user rev ''secret'' user_db 5 ''alice'' ''alice@example.org'' ''pw1234'' None =
     (user_db, Inl (HTTPException 400 ''Username already registered'')) \<and>
   create_user rev ''secret'' user_db 5 ''bob'' ''alice@example.org'' ''pw1234'' None =
     (user_db, Inl (HTTPException 400 ''Email already registered'')) \<and>
   (\<exists>u. create_user rev ''secret'' user_db 5 ''bob'' ''bob@example.org'' ''pw1234'' None =
          (user_db\<lparr>users := users user_db @ [u]\<rparr>, Inr u) \<and>
        username u = ''bob'' \<and> hashed_password u = ''4321wpterces'')"
proof -
  have u: "users user_db =
      [\<lparr> user_id = 1, username = ''alice'', email = ''alice@example.org'',
         hashed_password = ''x'', full_name = None, is_active = True,
         user.created_at = 0 \<rparr>]"
    by (simp add: user_db_def)
  have h: "hash_password rev ''secret'' ''pw1234'' = ''4321wpterces''"
    by (simp add: hash_password_def)
  from create_user_conflicts [where d = user_db and un = "''alice''" and em = "''alice@example.org''"
      and h = rev and k = "''secret''" and now = 5 and pw = "''pw1234''" and fn = None]
  have a: "create_user rev ''secret'' user_db 5 ''alice'' ''alice@example.org'' ''pw1234'' None =
     (user_db, Inl (HTTPException 400 ''Username already registered''))"
    by (simp add: u)
  from create_user_conflicts [where d = user_db and un = "''bob''" and em = "''alice@example.org''"
      and h = rev and k = "''secret''" and now = 5 and pw = "''pw1234''" and fn = None]
  have b: "create_user rev ''secret'' user_db 5 ''bob'' ''alice@example.org'' ''pw1234'' None =
     (user_db, Inl (HTTPException 400 ''Email already registered''))"
    by (simp add: u)
  from create_user_conflicts [where d = user_db and un = "''bob''" and em = "''bob@example.org''"
      and h = rev and k = "''secret''" and now = 5 and pw = "''pw1234''" and fn = None]
  have c: "\<exists>u. create_user rev ''secret'' user_db 5 ''bob'' ''bob@example.org'' ''pw1234'' None =
          (user_db\<lparr>users := users user_db @ [u]\<rparr>, Inr u) \<and>
        username u = ''bob'' \<and> hashed_password u = ''4321wpterces''"
    by (simp add: u h) blast
  from a b c show ?thesis by blast
qed

section \<open>Error statuses\<close>

lemma details_differ: "category_exists_detail n \<noteq> category_not_found_detail i"
  by (simp add: category_exists_detail_def category_not_found_detail_def)

text \<open>
  C5 (as amended). \<open>create_category\<close> with a name that exists and
  \<open>create_transaction\<close> with a category id that does not resolve both fail with status
  400; the two failures differ in their detail strings only, and both leave the store
  unchanged.
\<close>

theorem category_errors_same_status:
  "((\<exists>x\<in>set (categories d). category.name x = CategoryCreate.name c) \<longrightarrow>
      create_category d now c =
        (d, Inl (HTTPException 400 (category_exists_detail (CategoryCreate.name c))))) \<and>
   ((\<forall>x\<in>set (categories d). category.category_id x \<noteq> TransactionCreate.category_id t) \<longrightarrow>
      create_transaction d now t =
        (d, Inl (HTTPException 400
                   (category_not_found_detail (Some (TransactionCreate.category_id t)))))) \<and>
   category_exists_detail (CategoryCreate.name c) \<noteq>
     category_not_found_detail (Some (TransactionCreate.category_id t))"
proof -
  have 1: "create_category d now c =
        (d, Inl (HTTPException 400 (category_exists_detail (CategoryCreate.name c))))"
    if "\<exists>x\<in>set (categories d). category.name x = CategoryCreate.name c"
  proof -
    from that have "find (\<lambda>x. category.name x = CategoryCreate.name c) (categories d) \<noteq> None"
      by (simp only: find_Some_ex)
    then show ?thesis by (auto simp: create_category_def)
  qed
  have 2: "create_transaction d now t =
        (d, Inl (HTTPException 400
                   (category_not_found_detail (Some (TransactionCreate.category_id t)))))"
    if "\<forall>x\<in>set (categories d). category.category_id x \<noteq> TransactionCreate.category_id t"
  proof -
    from that have "get_category d (TransactionCreate.category_id t) = None"
      by (simp add: get_category_def find_None_all)
    then show ?thesis by (simp add: create_transaction_def)
  qed
  from 1 2 details_differ show ?thesis by blast
qed

text \<open>
  On the March 2024 store, which has a category Rent and no category 99.
\<close>

theorem category_errors_same_status_witness:
  "create_category budget_db 0 rent_again =
     (budget_db, Inl (HTTPException 400 (category_exists_detail ''Rent''))) \<and>
   create_transaction budget_db 0 orphan_expense =
     (budget_db, Inl (HTTPException 400 (category_not_found_detail (Some 99)))) \<and>
   category_exists_detail ''Rent'' \<noteq> category_not_found_detail (Some 99)"
  using category_errors_same_status [where d = budget_db and c = rent_again
      and t = orphan_expense and now = 0]
  by (simp add: budget_db_def rent_again_def orphan_expense_def mk_category_def)

text \<open>
  C5 as stated fails: the status of the duplicate name is not distinct from the status
  of the unresolved category id. Both are 400.
\<close>

theorem conflict_status_counterexample:
  "create_category budget_db 0 rent_again =
     (budget_db, Inl (HTTPException 400 ''Category 'Rent' already exists'')) \<and>
   create_transaction budget_db 0 orphan_expense =
     (budget_db, Inl (HTTPException 400 ''Category with ID 99 not found''))"
  by code_simp

section \<open>Listing transactions\<close>

lemma order_by_date_desc_sorted:
  "sorted_wrt (\<lambda>a b. transaction.transaction_date b \<le> transaction.transaction_date a)
     (order_by_date_desc xs)"
proof -
  have "sorted (map transaction.transaction_date (sort_key transaction.transaction_date xs))"
    by (rule sorted_sort_key)
  then have "sorted_wrt (\<lambda>a b. transaction.transaction_date a \<le> transaction.transaction_date b)
               (sort_key transaction.transaction_date xs)"
    by (simp only: sorted_map)
  then show ?thesis
    by (simp only: order_by_date_desc_def sorted_wrt_rev)
qed

lemma order_by_date_desc_set: "set (order_by_date_desc xs) = set xs"
  by (simp add: order_by_date_desc_def)

lemma order_by_date_desc_length: "length (order_by_date_desc xs) = length xs"
  by (simp add: order_by_date_desc_def)

lemma filter_category_set:
  "set (filter_category c xs) =
     {t \<in> set xs. \<forall>k. c = Some k \<and> k \<noteq> 0 \<longrightarrow> transaction.category_id t = k}"
  by (cases c) (auto simp: filter_category_def)

lemma filter_type_set:
  "set (filter_type ty xs) =
     {t \<in> set xs. \<forall>s. ty = Some s \<and> s \<noteq> [] \<longrightarrow> transaction.type t = s}"
  by (cases ty) (auto simp: filter_type_def)

lemma get_transactions_subset:
  "set (get_transactions d skip limit sd ed c ty) \<subseteq>
     {t \<in> set (transactions d).
        in_range sd ed (transaction.transaction_date t) \<and>
        (\<forall>k. c = Some k \<and> k \<noteq> 0 \<longrightarrow> transaction.category_id t = k) \<and>
        (\<forall>s. ty = Some s \<and> s \<noteq> [] \<longrightarrow> transaction.type t = s)}"
proof -
  have "set (get_transactions d skip limit sd ed c ty) \<subseteq>
          set (filter_type ty (filter_category c (filter_end ed (filter_start sd (transactions d)))))"
    unfolding get_transactions_def
    using set_take_subset set_drop_subset order_by_date_desc_set by fast
  also have "\<dots> \<subseteq> {t \<in> set (transactions d).
        in_range sd ed (transaction.transaction_date t) \<and>
        (\<forall>k. c = Some k \<and> k \<noteq> 0 \<longrightarrow> transaction.category_id t = k) \<and>
        (\<forall>s. ty = Some s \<and> s \<noteq> [] \<longrightarrow> transaction.type t = s)}"
    by (simp only: filter_type_set filter_category_set filter_range) auto
  finally show ?thesis .
qed

text \<open>
  C6 (as amended). For \<open>skip \<ge> 0\<close> and \<open>limit\<close> between 1 and 1000 the endpoint
  returns rows of the store that satisfy every filter in force, sorted by
  \<open>transaction_date\<close> descending, and never more than \<open>limit\<close> of them. A date
  bound is in force when it is supplied; the category filter when it is supplied and
  not 0; the type filter when it is supplied and not the empty string.
\<close>

theorem list_transactions_filtered_sorted_bounded:
  assumes "0 \<le> skip" and "1 \<le> limit" and "limit \<le> 1000"
  shows "\<exists>r. main_get_transactions d skip limit sd ed c ty = Inr r \<and>
           length r \<le> nat limit \<and>
           sorted_wrt (\<lambda>a b. transaction.transaction_date b \<le> transaction.transaction_date a) r \<and>
           (\<forall>t\<in>set r.
              t \<in> set (transactions d) \<and>
              in_range sd ed (transaction.transaction_date t) \<and>
              (\<forall>k. c = Some k \<and> k \<noteq> 0 \<longrightarrow> transaction.category_id t = k) \<and>
              (\<forall>s. ty = Some s \<and> s \<noteq> [] \<longrightarrow> transaction.type t = s))"
proof -
  let ?r = "get_transactions d (nat skip) (nat limit) sd ed c ty"
  have 1: "main_get_transactions d skip limit sd ed c ty = Inr ?r"
    using assms by (simp add: main_get_transactions_def)
  have 2: "length ?r \<le> nat limit"
    by (simp add: get_transactions_def)
  have 3: "sorted_wrt (\<lambda>a b. transaction.transaction_date b \<le> transaction.transaction_date a) ?r"
    unfolding get_transactions_def
    by (intro sorted_wrt_take sorted_wrt_drop order_by_date_desc_sorted)
  from 1 2 3 get_transactions_subset [of d "nat skip" "nat limit" sd ed c ty]
  show ?thesis by blast
qed

text \<open>
  March 2024 store, expenses of category 6 from 1 March on, second page of size 2: the
  one row left after skipping the newest.
\<close>

theorem list_transactions_filtered_sorted_bounded_witness:
  "(0::int) \<le> 1 \<and> (1::int) \<le> 2 \<and> (2::int) \<le> 1000 \<and>
   main_get_transactions budget_db 1 2 (Some (2024, 3, 1)) None (Some 6) (Some ''EXPENSE'') =
     Inr [mk_transaction 1 3000 ''EXPENSE'' (2024, 3, 1) 6]"
proof -
  have e: "main_get_transactions budget_db 1 2 (Some (2024, 3, 1)) None (Some 6) (Some ''EXPENSE'') =
     Inr [mk_transaction 1 3000 ''EXPENSE'' (2024, 3, 1) 6]"
    by code_simp
  from list_transactions_filtered_sorted_bounded [where skip = 1 and limit = 2 and d = budget_db
      and sd = "Some (2024, 3, 1)" and ed = None and c = "Some 6" and ty = "Some ''EXPENSE''"]
  have "\<exists>r. main_get_transactions budget_db 1 2 (Some (2024, 3, 1)) None (Some 6)
              (Some ''EXPENSE'') = Inr r \<and> length r \<le> nat 2"
    by simp blast
  with e show ?thesis by simp
qed

text \<open>
  C6 as stated fails when the supplied category is 0: the rows returned are of
  categories 6 and 7, none satisfies \<open>category_id = 0\<close>.
\<close>

theorem category_zero_counterexample:
  "map_sum id (map transaction.category_id)
     (main_get_transactions budget_db 0 100 None None (Some 0) None) = Inr [6, 7, 6, 6]"
  by code_simp

text \<open>
  C9. A category filter of 0 is the same as no category filter, whatever the other
  arguments; with no other filter and a limit that covers the table, every transaction
  is returned, of whatever category.
\<close>

theorem category_zero_not_filtered:
  "get_transactions d skip limit sd ed (Some 0) ty = get_transactions d skip limit sd ed None ty \<and>
   (length (transactions d) \<le> limit \<longrightarrow>
      set (get_transactions d 0 limit None None (Some 0) None) = set (transactions d))"
  by (simp add: get_transactions_def filter_category_def filter_type_def filter_start_def
      filter_end_def order_by_date_desc_set order_by_date_desc_length)

text \<open>
  On the March 2024 store, whose transactions are of categories 6 and 7.
\<close>

theorem category_zero_not_filtered_witness:
  "get_transactions budget_db 0 100 None None (Some 0) None =
     get_transactions budget_db 0 100 None None None None \<and>
   set (get_transactions budget_db 0 100 None None (Some 0) None) = set (transactions budget_db) \<and>
   transaction.category_id ` set (transactions budget_db) = {6, 7}"
proof -
  have len: "length (transactions budget_db) \<le> 100"
    by (simp add: budget_db_def)
  have cats: "transaction.category_id ` set (transactions budget_db) = {6, 7}"
    by (auto simp: budget_db_def mk_transaction_def)
  from category_zero_not_filtered [where d = budget_db and skip = 0 and limit = 100
      and sd = None and ed = None and ty = None] len cats
  show ?thesis by blast
qed

section \<open>Updating a transaction\<close>

lemma set_field_Some:
  "set_field s (Some p) = Some x \<Longrightarrow> (case s of None \<Rightarrow> x = p | Some v \<Rightarrow> v = Some x)"
  by (cases s) (auto simp: set_field_def)

lemma commit_update_Inr:
  assumes "commit_update d old u = (d', Inr new)"
  shows "updated_row u old new \<and>
         d' = d\<lparr>transactions :=
                  map (\<lambda>t. if transaction_id t = transaction_id old
                           then t\<lparr> transaction.amount := transaction.amount new,
                                   transaction.type := transaction.type new,
                                   transaction.description := transaction.description new,
                                   transaction.transaction_date := transaction.transaction_date new,
                                   transaction.category_id := transaction.category_id new \<rparr>
                           else t) (transactions d)\<rparr>"
proof -
  obtain a ty dt c where s:
    "set_field (TransactionUpdate.amount u) (Some (transaction.amount old)) = Some a"
    "set_field (TransactionUpdate.type u) (Some (transaction.type old)) = Some ty"
    "set_field (TransactionUpdate.transaction_date u) (Some (transaction.transaction_date old)) = Some dt"
    "set_field (TransactionUpdate.category_id u) (Some (transaction.category_id old)) = Some c"
    using assms by (auto simp: commit_update_def split: option.splits prod.splits)
  from assms s have new: "new = old\<lparr> transaction.amount := a, transaction.type := ty,
        transaction.description :=
          set_field (TransactionUpdate.description u) (transaction.description old),
        transaction.transaction_date := dt, transaction.category_id := c \<rparr>"
    and d': "d' = d\<lparr>transactions :=
                  map (\<lambda>t. if transaction_id t = transaction_id old
                           then t\<lparr> transaction.amount := a, transaction.type := ty,
                                   transaction.description :=
                                     set_field (TransactionUpdate.description u)
                                       (transaction.description old),
                                   transaction.transaction_date := dt,
                                   transaction.category_id := c \<rparr>
                           else t) (transactions d)\<rparr>"
    by (auto simp: commit_update_def Let_def split: if_splits)
  have "updated_row u old new"
    unfolding updated_row_def
    using set_field_Some [OF s(1)] set_field_Some [OF s(2)] set_field_Some [OF s(3)]
      set_field_Some [OF s(4)]
    by (auto simp: new set_field_def split: option.splits)
  with d' show ?thesis by (simp add: new)
qed


lemma get_transaction_Some:
  "get_transaction d tid = Some old \<Longrightarrow> transaction_id old = tid \<and> old \<in> set (transactions d)"
  by (auto simp: get_transaction_def find_Some_iff)

lemma update_transaction_Inr:
  assumes "get_transaction d tid = Some old" and "update_transaction d tid u = (d', Inr new)"
  shows "commit_update d old u = (d', Inr new)"
  using assms by (auto simp: update_transaction_def split: option.splits)

text \<open>
  C8. \<open>update_transaction\<close> fails with status 404 when the id is absent, and with status
  400 when a supplied category does not resolve, the store being returned unchanged in
  both cases. When it succeeds on an existing transaction, every field that was supplied
  holds the supplied value and every field that was not supplied, with the id and the
  creation time, holds its prior value; the other tables and the rows of other ids are
  untouched and the new row is in the store. It does succeed when the stored row
  satisfies the table's constraints, a supplied category resolves and no supplied value
  of a mandatory column is null or breaks a constraint.
\<close>

theorem update_transaction_frame:
  "(get_transaction d tid = None \<longrightarrow>
      update_transaction d tid u =
        (d, Inl (HTTPException 404 (transaction_not_found_detail tid)))) \<and>
   (get_transaction d tid = Some old \<and> TransactionUpdate.category_id u = Some cid \<and>
    (\<forall>c. cid = Some c \<longrightarrow> get_category d c = None) \<longrightarrow>
      update_transaction d tid u =
        (d, Inl (HTTPException 400 (category_not_found_detail cid)))) \<and>
   (get_transaction d tid = Some old \<and> update_transaction d tid u = (d', Inr new) \<longrightarrow>
      updated_row u old new \<and>
      categories d' = categories d \<and> budgets d' = budgets d \<and> users d' = users d \<and>
      length (transactions d') = length (transactions d) \<and>
      (\<forall>i<length (transactions d).
         transaction_id (transactions d ! i) \<noteq> tid \<longrightarrow>
         transactions d' ! i = transactions d ! i) \<and>
      new \<in> set (transactions d')) \<and>
   (get_transaction d tid = Some old \<and>
    0 < transaction.amount old \<and> check_type (transaction.type old) \<and>
    (TransactionUpdate.amount u = None \<or>
       (\<exists>a. TransactionUpdate.amount u = Some (Some a) \<and> 0 < a)) \<and>
    (TransactionUpdate.type u = None \<or>
       (\<exists>ty. TransactionUpdate.type u = Some (Some ty) \<and> check_type ty)) \<and>
    TransactionUpdate.transaction_date u \<noteq> Some None \<and>
    (TransactionUpdate.category_id u = None \<or>
       (\<exists>c. TransactionUpdate.category_id u = Some (Some c) \<and> get_category d c \<noteq> None)) \<longrightarrow>
      (\<exists>d2 new2. update_transaction d tid u = (d2, Inr new2)))"
proof (intro conjI impI)
  assume "get_transaction d tid = None"
  then show "update_transaction d tid u =
        (d, Inl (HTTPException 404 (transaction_not_found_detail tid)))"
    by (simp add: update_transaction_def)
next
  assume "get_transaction d tid = Some old \<and> TransactionUpdate.category_id u = Some cid \<and>
    (\<forall>c. cid = Some c \<longrightarrow> get_category d c = None)"
  then show "update_transaction d tid u =
        (d, Inl (HTTPException 400 (category_not_found_detail cid)))"
    by (cases cid) (simp_all add: update_transaction_def)
next
  assume a: "get_transaction d tid = Some old \<and> update_transaction d tid u = (d', Inr new)"
  then have old: "transaction_id old = tid" "old \<in> set (transactions d)"
    using get_transaction_Some by blast+
  from a have "commit_update d old u = (d', Inr new)"
    using update_transaction_Inr by blast
  from commit_update_Inr [OF this] have row: "updated_row u old new"
    and d': "d' = d\<lparr>transactions :=
                  map (\<lambda>t. if transaction_id t = transaction_id old
                           then t\<lparr> transaction.amount := transaction.amount new,
                                   transaction.type := transaction.type new,
                                   transaction.description := transaction.description new,
                                   transaction.transaction_date := transaction.transaction_date new,
                                   transaction.category_id := transaction.category_id new \<rparr>
                           else t) (transactions d)\<rparr>"
    by blast+
  from row have same: "transaction_id new = transaction_id old"
    "transaction.created_at new = transaction.created_at old"
    by (simp_all add: updated_row_def)
  have new: "old\<lparr> transaction.amount := transaction.amount new,
                  transaction.type := transaction.type new,
                  transaction.description := transaction.description new,
                  transaction.transaction_date := transaction.transaction_date new,
                  transaction.category_id := transaction.category_id new \<rparr> = new"
    using same by (cases old, cases new) simp
  show "updated_row u old new" by (rule row)
  show "categories d' = categories d" by (simp add: d')
  show "budgets d' = budgets d" by (simp add: d')
  show "users d' = users d" by (simp add: d')
  show "length (transactions d') = length (transactions d)" by (simp add: d')
  show "\<forall>i<length (transactions d).
         transaction_id (transactions d ! i) \<noteq> tid \<longrightarrow>
         transactions d' ! i = transactions d ! i"
    by (simp add: d' old(1))
  define g where "g = (\<lambda>t::transaction. if transaction_id t = transaction_id old
                           then t\<lparr> transaction.amount := transaction.amount new,
                                   transaction.type := transaction.type new,
                                   transaction.description := transaction.description new,
                                   transaction.transaction_date := transaction.transaction_date new,
                                   transaction.category_id := transaction.category_id new \<rparr>
                           else t)"
  have "g old = new" by (simp add: g_def new)
  with old(2) have "new \<in> g ` set (transactions d)" by blast
  then show "new \<in> set (transactions d')" by (simp add: d' g_def)
next
  assume a: "get_transaction d tid = Some old \<and>
    0 < transaction.amount old \<and> check_type (transaction.type old) \<and>
    (TransactionUpdate.amount u = None \<or>
       (\<exists>a. TransactionUpdate.amount u = Some (Some a) \<and> 0 < a)) \<and>
    (TransactionUpdate.type u = None \<or>
       (\<exists>ty. TransactionUpdate.type u = Some (Some ty) \<and> check_type ty)) \<and>
    TransactionUpdate.transaction_date u \<noteq> Some None \<and>
    (TransactionUpdate.category_id u = None \<or>
       (\<exists>c. TransactionUpdate.category_id u = Some (Some c) \<and> get_category d c \<noteq> None))"
  then obtain x ty where x:
    "set_field (TransactionUpdate.amount u) (Some (transaction.amount old)) = Some x" "0 < x"
    "set_field (TransactionUpdate.type u) (Some (transaction.type old)) = Some ty" "check_type ty"
    by (auto simp: set_field_def)
  from a obtain dt where dt:
    "set_field (TransactionUpdate.transaction_date u)
       (Some (transaction.transaction_date old)) = Some dt"
    by (cases "TransactionUpdate.transaction_date u") (auto simp: set_field_def)
  from a obtain c where c:
    "set_field (TransactionUpdate.category_id u) (Some (transaction.category_id old)) = Some c"
    by (auto simp: set_field_def)
  have "\<exists>d2 new2. commit_update d old u = (d2, Inr new2)"
    by (simp add: commit_update_def x dt c Let_def)
  moreover from a have "update_transaction d tid u = commit_update d old u"
    by (auto simp: update_transaction_def split: option.splits)
  ultimately show "\<exists>d2 new2. update_transaction d tid u = (d2, Inr new2)" by simp
qed

text \<open>
  On the March 2024 store: id 99 is absent, category 99 does not resolve, and supplying
  the amount 1800 alone for transaction 2 changes its amount and nothing else.
\<close>

theorem update_transaction_frame_witness:
  "update_transaction budget_db 99 amount_update =
     (budget_db, Inl (HTTPException 404 (transaction_not_found_detail 99))) \<and>
   update_transaction budget_db 2 category_update =
     (budget_db, Inl (HTTPException 400 (category_not_found_detail (Some 99)))) \<and>
   (\<exists>d' new. update_transaction budget_db 2 amount_update = (d', Inr new) \<and>
      transaction.amount new = 1800 \<and>
      transaction.type new = ''EXPENSE'' \<and>
      transaction.transaction_date new = (2024, 3, 31) \<and>
      transaction.category_id new = 6 \<and>
      categories d' = categories budget_db \<and> budgets d' = budgets budget_db \<and>
      transactions d' ! 0 = transactions budget_db ! 0)"
proof -
  let ?old = "mk_transaction 2 1500 ''EXPENSE'' (2024, 3, 31) 6"
  have g99: "get_transaction budget_db 99 = None"
    by (simp add: get_transaction_def budget_db_def mk_transaction_def)
  have g2: "get_transaction budget_db 2 = Some ?old"
    by (simp add: get_transaction_def budget_db_def mk_transaction_def)
  have c99: "get_category budget_db 99 = None"
    by (simp add: get_category_def budget_db_def mk_category_def)
  note fr = update_transaction_frame [where d = budget_db]
  from fr [where tid = 99 and u = amount_update] g99
  have a: "update_transaction budget_db 99 amount_update =
     (budget_db, Inl (HTTPException 404 (transaction_not_found_detail 99)))"
    by blast
  from fr [where tid = 2 and u = category_update and old = ?old and cid = "Some 99"] g2 c99
  have b: "update_transaction budget_db 2 category_update =
     (budget_db, Inl (HTTPException 400 (category_not_found_detail (Some 99))))"
    by (simp add: category_update_def empty_update_def)
  have ok: "0 < transaction.amount ?old \<and> check_type (transaction.type ?old)"
    by (simp add: mk_transaction_def check_type_def)
  from fr [where tid = 2 and u = amount_update and old = ?old,
      THEN conjunct2, THEN conjunct2, THEN conjunct2] g2 ok
  have "\<exists>d2 new2. update_transaction budget_db 2 amount_update = (d2, Inr new2)"
    by (simp add: amount_update_def empty_update_def)
  then obtain d2 new2 where r: "update_transaction budget_db 2 amount_update = (d2, Inr new2)"
    by blast
  from fr [where tid = 2 and u = amount_update and old = ?old and d' = d2 and new = new2] g2 r
  have row: "updated_row amount_update ?old new2"
    and frame: "categories d2 = categories budget_db" "budgets d2 = budgets budget_db"
    and rest: "\<forall>i<length (transactions budget_db).
         transaction_id (transactions budget_db ! i) \<noteq> 2 \<longrightarrow>
         transactions d2 ! i = transactions budget_db ! i"
    by blast+
  from row have f: "transaction.amount new2 = 1800" "transaction.type new2 = ''EXPENSE''"
    "transaction.transaction_date new2 = (2024, 3, 31)" "transaction.category_id new2 = 6"
    by (simp_all add: updated_row_def amount_update_def empty_update_def mk_transaction_def)
  from rest [rule_format, of 0] have r0: "transactions d2 ! 0 = transactions budget_db ! 0"
    by (simp add: budget_db_def mk_transaction_def)
  from a b r f frame r0 show ?thesis by blast
qed

section \<open>Budget upsert\<close>

lemma fold_max_ge: "(a::int) \<le> fold max xs a"
proof (induction xs arbitrary: a)
  case Nil
  show ?case by simp
next
  case (Cons x xs)
  have "a \<le> max x a" by simp
  also have "\<dots> \<le> fold max xs (max x a)" by (rule Cons.IH)
  finally show ?case by simp
qed

lemma fold_max_mem: "x \<in> set xs \<Longrightarrow> (x::int) \<le> fold max xs a"
proof (induction xs arbitrary: a)
  case Nil
  then show ?case by simp
next
  case (Cons y ys)
  show ?case
  proof (cases "x = y")
    case True
    have "x \<le> max y a" using True by simp
    also have "\<dots> \<le> fold max ys (max y a)" by (rule fold_max_ge)
    finally show ?thesis by simp
  next
    case False
    with Cons.prems have "x \<in> set ys" by simp
    from Cons.IH [OF this] show ?thesis by simp
  qed
qed

lemma next_id_fresh: "next_id ids \<notin> set ids"
proof
  assume "next_id ids \<in> set ids"
  from fold_max_mem [OF this, of 0] show False by (simp add: next_id_def)
qed

lemma distinct_filter_single:
  "distinct (map f xs) \<Longrightarrow> x \<in> set xs \<Longrightarrow> filter (\<lambda>y. f y = f x) xs = [x]"
proof (induction xs)
  case Nil
  then show ?case by simp
next
  case (Cons z zs)
  show ?case
  proof (cases "x = z")
    case True
    from Cons.prems(1) have "f z \<notin> f ` set zs" by simp
    then have "\<forall>y\<in>set zs. f y \<noteq> f z" by (metis imageI)
    then have "filter (\<lambda>y. f y = f z) zs = []" by (simp add: filter_empty_conv)
    with True show ?thesis by simp
  next
    case False
    with Cons.prems have x: "x \<in> set zs" and d: "distinct (map f zs)" by simp_all
    from Cons.prems(1) have "f z \<notin> f ` set zs" by simp
    with x have "f z \<noteq> f x" by (metis imageI)
    with Cons.IH [OF d x] show ?thesis by simp
  qed
qed


text \<open>
  One call on a store whose budget keys are unique: it succeeds, leaves exactly one
  budget row for the category, carrying the request's amount and period, keeps the keys
  unique, and when a row for the category was there before it keeps that row's id and
  changes nothing at all if the row already had the request's values.
\<close>

lemma upsert_step:
  assumes cat: "get_category d (BudgetCreate.category_id b) = Some c"
      "category.type c = ''EXPENSE''"
    and pos: "0 < BudgetCreate.amount b"
    and dc: "distinct (map budget.category_id (budgets d))"
    and di: "distinct (map budget.budget_id (budgets d))"
  shows "\<exists>d' x. create_or_update_budget d now b = (d', Inr x) \<and>
           categories d' = categories d \<and>
           filter (\<lambda>y. budget.category_id y = BudgetCreate.category_id b) (budgets d') = [x] \<and>
           budget.amount x = BudgetCreate.amount b \<and>
           budget.period x = BudgetCreate.period b \<and>
           distinct (map budget.category_id (budgets d')) \<and>
           distinct (map budget.budget_id (budgets d')) \<and>
           (\<forall>x0. filter (\<lambda>y. budget.category_id y = BudgetCreate.category_id b) (budgets d) = [x0]
              \<longrightarrow> budget.budget_id x = budget.budget_id x0 \<and>
                  (budget.amount x0 = BudgetCreate.amount b \<and>
                   budget.period x0 = BudgetCreate.period b \<longrightarrow> d' = d))"
proof (cases "find (\<lambda>x. budget.category_id x = BudgetCreate.category_id b) (budgets d)")
  case None
  define x where "x = \<lparr> budget.budget_id = next_id (map budget.budget_id (budgets d)),
                          budget.category_id = BudgetCreate.category_id b,
                          budget.amount = BudgetCreate.amount b,
                          budget.period = BudgetCreate.period b,
                          budget.created_at = now \<rparr>"
  from None have no: "\<forall>y\<in>set (budgets d). budget.category_id y \<noteq> BudgetCreate.category_id b"
    by (auto simp: find_None_iff)
  then have empty: "filter (\<lambda>y. budget.category_id y = BudgetCreate.category_id b) (budgets d) = []"
    by (simp add: filter_empty_conv)
  have r: "create_or_update_budget d now b = (d\<lparr>budgets := budgets d @ [x]\<rparr>, Inr x)"
    using cat pos None by (simp add: create_or_update_budget_def Let_def x_def)
  have "BudgetCreate.category_id b \<notin> set (map budget.category_id (budgets d))"
    using no by auto
  then have dc': "distinct (map budget.category_id (budgets d @ [x]))"
    using dc by (simp add: x_def)
  have di': "distinct (map budget.budget_id (budgets d @ [x]))"
    using di next_id_fresh [of "map budget.budget_id (budgets d)"] by (simp add: x_def)
  show ?thesis
    using r dc' di' by (simp add: empty) (simp add: x_def)
next
  case (Some existing)
  define g where "g = (\<lambda>y::budget. if budget.budget_id y = budget.budget_id existing
                         then y\<lparr> budget.amount := BudgetCreate.amount b,
                                 budget.period := BudgetCreate.period b \<rparr> else y)"
  from Some have ex: "existing \<in> set (budgets d)"
      "budget.category_id existing = BudgetCreate.category_id b"
    by (auto simp: find_Some_iff)
  have r: "create_or_update_budget d now b = (d\<lparr>budgets := map g (budgets d)\<rparr>, Inr (g existing))"
    using cat pos Some by (simp add: create_or_update_budget_def Let_def g_def)
  have keep: "budget.category_id (g y) = budget.category_id y"
      "budget.budget_id (g y) = budget.budget_id y" for y
    by (simp_all add: g_def)
  have single: "filter (\<lambda>y. budget.category_id y = BudgetCreate.category_id b) (budgets d) =
                  [existing]"
    using distinct_filter_single [OF dc ex(1)] by (simp add: ex(2))
  have "filter (\<lambda>y. budget.category_id y = BudgetCreate.category_id b) (map g (budgets d)) =
          map g (filter (\<lambda>y. budget.category_id y = BudgetCreate.category_id b) (budgets d))"
    by (simp add: filter_map comp_def keep)
  then have f: "filter (\<lambda>y. budget.category_id y = BudgetCreate.category_id b)
                  (map g (budgets d)) = [g existing]"
    by (simp add: single)
  have dc': "distinct (map budget.category_id (map g (budgets d)))"
    using dc by (simp add: comp_def keep)
  have di': "distinct (map budget.budget_id (map g (budgets d)))"
    using di by (simp add: comp_def keep)
  have idem: "d\<lparr>budgets := map g (budgets d)\<rparr> = d"
    if same: "budget.amount existing = BudgetCreate.amount b"
             "budget.period existing = BudgetCreate.period b"
  proof -
    have "g y = y" if "y \<in> set (budgets d)" for y
    proof (cases "budget.budget_id y = budget.budget_id existing")
      case True
      with di that ex(1) have "y = existing"
        by (meson distinct_map inj_onD)
      with same show ?thesis by (simp add: g_def)
    next
      case False
      then show ?thesis by (simp add: g_def)
    qed
    then have "map g (budgets d) = budgets d" by (simp add: map_idI)
    then show ?thesis by simp
  qed
  show ?thesis
    using r f dc' di' idem by (simp add: single) (simp add: g_def)
qed


text \<open>
  C4. For an existing EXPENSE category and two requests for it with positive amounts, on
  a store whose budget ids and budget category ids are unique (the table's primary key
  and unique constraint): both calls succeed, the store then holds exactly one budget row
  for the category, that row has the amount and the period of the second request and
  the id returned by the first call, and when the second request repeats the amount and
  period of the first the second call leaves the store as the first call left it.
\<close>

theorem budget_upsert_twice:
  assumes cat: "get_category d (BudgetCreate.category_id b1) = Some c"
      "category.type c = ''EXPENSE''"
    and same: "BudgetCreate.category_id b2 = BudgetCreate.category_id b1"
    and pos: "0 < BudgetCreate.amount b1" "0 < BudgetCreate.amount b2"
    and dc: "distinct (map budget.category_id (budgets d))"
    and di: "distinct (map budget.budget_id (budgets d))"
  shows "\<exists>d1 x1 d2 x2.
           create_or_update_budget d now1 b1 = (d1, Inr x1) \<and>
           create_or_update_budget d1 now2 b2 = (d2, Inr x2) \<and>
           filter (\<lambda>y. budget.category_id y = BudgetCreate.category_id b1) (budgets d2) = [x2] \<and>
           budget.amount x2 = BudgetCreate.amount b2 \<and>
           budget.period x2 = BudgetCreate.period b2 \<and>
           budget.budget_id x2 = budget.budget_id x1 \<and>
           (BudgetCreate.amount b2 = BudgetCreate.amount b1 \<and>
            BudgetCreate.period b2 = BudgetCreate.period b1 \<longrightarrow> d2 = d1)"
proof -
  from upsert_step [OF cat pos(1) dc di, of now1]
  obtain d1 x1 where 1: "create_or_update_budget d now1 b1 = (d1, Inr x1)"
    and c1: "categories d1 = categories d"
    and f1: "filter (\<lambda>y. budget.category_id y = BudgetCreate.category_id b1) (budgets d1) = [x1]"
    and v1: "budget.amount x1 = BudgetCreate.amount b1" "budget.period x1 = BudgetCreate.period b1"
    and dc1: "distinct (map budget.category_id (budgets d1))"
    and di1: "distinct (map budget.budget_id (budgets d1))"
    by blast
  have cat2: "get_category d1 (BudgetCreate.category_id b2) = Some c"
    using cat(1) by (simp add: get_category_def c1 same)
  from upsert_step [OF cat2 cat(2) pos(2) dc1 di1, of now2]
  obtain d2 x2 where 2: "create_or_update_budget d1 now2 b2 = (d2, Inr x2)"
    and f2: "filter (\<lambda>y. budget.category_id y = BudgetCreate.category_id b2) (budgets d2) = [x2]"
    and v2: "budget.amount x2 = BudgetCreate.amount b2" "budget.period x2 = BudgetCreate.period b2"
    and prev: "\<forall>x0. filter (\<lambda>y. budget.category_id y = BudgetCreate.category_id b2) (budgets d1) = [x0]
              \<longrightarrow> budget.budget_id x2 = budget.budget_id x0 \<and>
                  (budget.amount x0 = BudgetCreate.amount b2 \<and>
                   budget.period x0 = BudgetCreate.period b2 \<longrightarrow> d2 = d1)"
    by blast
  from prev [rule_format, of x1] f1
  have p: "budget.budget_id x2 = budget.budget_id x1"
    "budget.amount x1 = BudgetCreate.amount b2 \<and> budget.period x1 = BudgetCreate.period b2
       \<longrightarrow> d2 = d1"
    by (simp_all add: same)
  from 1 2 f2 v2 p v1 show ?thesis by (simp add: same)
qed

text \<open>
  Category 6 of a store without budgets: 500 monthly, then 750 weekly.
\<close>

theorem budget_upsert_twice_witness:
  "get_category trend_db 6 = Some (mk_category 6 ''Food & Dining'' ''EXPENSE'') \<and>
   budgets trend_db = [] \<and>
   (\<exists>d1 x1 d2 x2.
      create_or_update_budget trend_db 10 food_500 = (d1, Inr x1) \<and>
      create_or_update_budget d1 20 food_750 = (d2, Inr x2) \<and>
      filter (\<lambda>y. budget.category_id y = 6) (budgets d2) = [x2] \<and>
      budget.amount x2 = 750 \<and> budget.period x2 = ''WEEKLY'' \<and>
      budget.budget_id x2 = budget.budget_id x1)"
proof -
  have c: "get_category trend_db (BudgetCreate.category_id food_500) =
             Some (mk_category 6 ''Food & Dining'' ''EXPENSE'')"
    by (simp add: get_category_def trend_db_def mk_category_def food_500_def)
  have e: "category.type (mk_category 6 ''Food & Dining'' ''EXPENSE'') = ''EXPENSE''"
    by (simp add: mk_category_def)
  have s: "BudgetCreate.category_id food_750 = BudgetCreate.category_id food_500"
    by (simp add: food_500_def food_750_def)
  have p: "0 < BudgetCreate.amount food_500" "0 < BudgetCreate.amount food_750"
    by (simp_all add: food_500_def food_750_def)
  have b: "budgets trend_db = []" by (simp add: trend_db_def)
  have dc: "distinct (map budget.category_id (budgets trend_db))" by (simp add: b)
  have di: "distinct (map budget.budget_id (budgets trend_db))" by (simp add: b)
  from budget_upsert_twice [OF c e s p dc di, of 10 20]
  have "\<exists>d1 x1 d2 x2.
      create_or_update_budget trend_db 10 food_500 = (d1, Inr x1) \<and>
      create_or_update_budget d1 20 food_750 = (d2, Inr x2) \<and>
      filter (\<lambda>y. budget.category_id y = 6) (budgets d2) = [x2] \<and>
      budget.amount x2 = 750 \<and> budget.period x2 = ''WEEKLY'' \<and>
      budget.budget_id x2 = budget.budget_id x1"
    by (simp add: food_500_def food_750_def)
  with c b show ?thesis by (simp add: food_500_def)
qed

end
